theory Spec2Isabelle
  imports Complex_Main
begin

section \<open>The parameter expression system of sherpa/models/parameter.py\<close>

text \<open>
  The module defines the class \<open>Parameter\<close> and its subclasses \<open>CompositeParameter\<close>,
  \<open>ConstantParameter\<close>, \<open>UnaryOpParameter\<close> and \<open>BinaryOpParameter\<close>. Instances are
  mutable objects that refer to each other (a link, the parts of a composite), so the
  model keeps them in a store indexed by addresses.

  Conventions of the model:
  \<^item> A \<open>SherpaFloat\<close> value is a real number or NaN, and a comparison with NaN is
    false, as in Python. Rounding, the infinities and the sign of zero are not modelled.
  \<^item> An exception is a value: every operation returns \<open>Raise e\<close> or \<open>Return x\<close>
    together with the store as the exception left it.
  \<^item> Recursion through links and parts, and the loop of the link setter, take a
    budget \<open>n\<close>; the result \<open>None\<close> means that the budget was used up, or that an
    address refers to no object (which Python cannot produce).
\<close>

subsection \<open>Numbers\<close>

text \<open>\<open>SherpaFloat\<close> is \<open>numpy.float64\<close>. The model keeps the one value of it that the
  order does not place: NaN. \<open>x < y\<close> and \<open>x \<le> y\<close> are the comparisons of Python
  (\<open>x > y\<close> is \<open>y < x\<close>), false when either side is NaN, and arithmetic with NaN is NaN.
  A division by zero is NaN here: numpy returns NaN for \<open>0 / 0\<close> and an infinity otherwise,
  and the model has no infinity.\<close>

datatype SherpaFloat = NaN | Num real

instantiation SherpaFloat :: "{zero, one, plus, minus, uminus, times, inverse, abs, ord}"
begin

definition zero_SherpaFloat :: SherpaFloat where
  "zero_SherpaFloat = Num 0"

definition one_SherpaFloat :: SherpaFloat where
  "one_SherpaFloat = Num 1"

definition plus_SherpaFloat :: "SherpaFloat \<Rightarrow> SherpaFloat \<Rightarrow> SherpaFloat" where
  "plus_SherpaFloat x y = (case (x, y) of (Num a, Num b) \<Rightarrow> Num (a + b) | _ \<Rightarrow> NaN)"

definition minus_SherpaFloat :: "SherpaFloat \<Rightarrow> SherpaFloat \<Rightarrow> SherpaFloat" where
  "minus_SherpaFloat x y = (case (x, y) of (Num a, Num b) \<Rightarrow> Num (a - b) | _ \<Rightarrow> NaN)"

definition uminus_SherpaFloat :: "SherpaFloat \<Rightarrow> SherpaFloat" where
  "uminus_SherpaFloat x = (case x of Num a \<Rightarrow> Num (- a) | NaN \<Rightarrow> NaN)"

definition times_SherpaFloat :: "SherpaFloat \<Rightarrow> SherpaFloat \<Rightarrow> SherpaFloat" where
  "times_SherpaFloat x y = (case (x, y) of (Num a, Num b) \<Rightarrow> Num (a * b) | _ \<Rightarrow> NaN)"

definition divide_SherpaFloat :: "SherpaFloat \<Rightarrow> SherpaFloat \<Rightarrow> SherpaFloat" where
  "divide_SherpaFloat x y =
     (case (x, y) of (Num a, Num b) \<Rightarrow> if b = 0 then NaN else Num (a / b) | _ \<Rightarrow> NaN)"

definition inverse_SherpaFloat :: "SherpaFloat \<Rightarrow> SherpaFloat" where
  "inverse_SherpaFloat x =
     (case x of Num a \<Rightarrow> if a = 0 then NaN else Num (inverse a) | NaN \<Rightarrow> NaN)"

definition abs_SherpaFloat :: "SherpaFloat \<Rightarrow> SherpaFloat" where
  "abs_SherpaFloat x = (case x of Num a \<Rightarrow> Num \<bar>a\<bar> | NaN \<Rightarrow> NaN)"

definition less_SherpaFloat :: "SherpaFloat \<Rightarrow> SherpaFloat \<Rightarrow> bool" where
  "less_SherpaFloat x y = (case (x, y) of (Num a, Num b) \<Rightarrow> a < b | _ \<Rightarrow> False)"

definition less_eq_SherpaFloat :: "SherpaFloat \<Rightarrow> SherpaFloat \<Rightarrow> bool" where
  "less_eq_SherpaFloat x y = (case (x, y) of (Num a, Num b) \<Rightarrow> a \<le> b | _ \<Rightarrow> False)"

instance ..

end

text \<open>Addition is associative, which is what a literal such as \<open>10\<close> needs to denote a
  \<open>SherpaFloat\<close>: it is \<open>Num 10\<close> (lemma \<open>numeral_SherpaFloat\<close> below).\<close>

instance SherpaFloat :: numeral
proof
  fix a b c :: SherpaFloat
  show "a + b + c = a + (b + c)"
    by (cases a; cases b; cases c) (simp_all add: plus_SherpaFloat_def)
qed

text \<open>\<open>x == x\<close>, the test that a float is not NaN.\<close>

definition is_number :: "SherpaFloat \<Rightarrow> bool" where
  "is_number x = (case x of NaN \<Rightarrow> False | Num a \<Rightarrow> True)"

subsection \<open>Data model\<close>

type_synonym addr = nat

datatype error =
    ParameterErr_edge string string SherpaFloat
  | ParameterErr_notlink
  | ParameterErr_frozennolink string
  | ParameterErr_linkcycle
  | ParameterErr_alwaysfrozen string
  | NotImplementedError
  | AssertionError

datatype 'a result = Raise error | Return 'a

text \<open>The class of an object, with the attributes the subclass adds
  (\<open>value\<close>; \<open>op\<close> and \<open>arg\<close>; \<open>op\<close>, \<open>lhs\<close> and \<open>rhs\<close>).\<close>

datatype cls =
    Parameter
  | CompositeParameter
  | ConstantParameter SherpaFloat
  | UnaryOpParameter "SherpaFloat \<Rightarrow> SherpaFloat" addr
  | BinaryOpParameter "SherpaFloat \<Rightarrow> SherpaFloat \<Rightarrow> SherpaFloat" addr addr

text \<open>The attributes of a \<open>Parameter\<close> instance. A field \<open>p_x\<close> is the private
  attribute \<open>_x\<close> of the source. \<open>initialized\<close> is the flag
  \<open>_NoNewAttributesAfterInit__initialized\<close> of the base class.\<close>

record param =
  cls :: cls
  parts :: "addr list"
  modelname :: string
  name :: string
  fullname :: string
  p_hard_min :: SherpaFloat
  p_hard_max :: SherpaFloat
  units :: string
  p_alwaysfrozen :: bool
  p_frozen :: bool
  hidden :: bool
  p_min :: SherpaFloat
  p_max :: SherpaFloat
  p_val :: SherpaFloat
  p_default_min :: SherpaFloat
  p_default_max :: SherpaFloat
  p_default_val :: SherpaFloat
  p_link :: "addr option"
  p_guessed :: bool
  aliases :: "string list"
  initialized :: bool

text \<open>The two warnings of the limit setter, with the full name and the value they print.\<close>

datatype warning =
    Less_than_new_minimum string SherpaFloat
  | Greater_than_new_maximum string SherpaFloat

type_synonym heap = "addr \<Rightarrow> param option"

record world =
  heap :: heap
  next_addr :: addr
  warnings :: "warning list"

text \<open>What Python code assigns to \<open>val\<close>, \<open>default_val\<close> or \<open>link\<close>: a number or a
  \<open>Parameter\<close> instance (\<open>None\<close> is \<open>None\<close> of the option type).\<close>

datatype pyval = Number SherpaFloat | Instance addr

text \<open>\<open>tinyval\<close> and \<open>hugeval\<close>: the least positive normal and the greatest finite
  32-bit float, \<open>2 ^ -126\<close> and \<open>(2 ^ 24 - 1) * 2 ^ 104\<close> (the module docstring prints
  the latter as \<open>3.4028234663852886e+38\<close>).\<close>

definition tinyval :: SherpaFloat where
  "tinyval = Num (1 / 2 ^ 126)"

definition hugeval :: SherpaFloat where
  "hugeval = Num ((2 ^ 24 - 1) * 2 ^ 104)"

subsection \<open>Commands: state and exceptions\<close>

type_synonym 'a cmd = "world \<Rightarrow> ('a result \<times> world) option"

definition ret :: "'a \<Rightarrow> 'a cmd" where
  "ret x w = Some (Return x, w)"

definition raise :: "error \<Rightarrow> 'a cmd" where
  "raise e w = Some (Raise e, w)"

definition seq :: "'a cmd \<Rightarrow> ('a \<Rightarrow> 'b cmd) \<Rightarrow> 'b cmd" where
  "seq m f w =
     (case m w of
        None \<Rightarrow> None
      | Some (Raise e, w') \<Rightarrow> Some (Raise e, w')
      | Some (Return x, w') \<Rightarrow> f x w')"

text \<open>A read of the store: the result of a function of the heap, the world unchanged.\<close>

definition reading :: "(heap \<Rightarrow> 'a result option) \<Rightarrow> 'a cmd" where
  "reading f w = (case f (heap w) of None \<Rightarrow> None | Some r \<Rightarrow> Some (r, w))"

text \<open>The object at an address, and an attribute store on it.\<close>

definition obj :: "addr \<Rightarrow> param cmd" where
  "obj a w = (case heap w a of None \<Rightarrow> None | Some p \<Rightarrow> Some (Return p, w))"

definition modify :: "addr \<Rightarrow> (param \<Rightarrow> param) \<Rightarrow> unit cmd" where
  "modify a f w =
     (case heap w a of
        None \<Rightarrow> None
      | Some p \<Rightarrow> Some (Return (), w\<lparr>heap := (heap w)(a \<mapsto> f p)\<rparr>))"

definition warn :: "warning \<Rightarrow> unit cmd" where
  "warn x w = Some (Return (), w\<lparr>warnings := warnings w @ [x]\<rparr>)"

subsection \<open>Iteration and flattening\<close>

text \<open>\<open>isinstance(p, CompositeParameter)\<close>; the same objects are those with an
  \<open>eval\<close> attribute.\<close>

definition is_composite :: "param \<Rightarrow> bool" where
  "is_composite p = (case cls p of Parameter \<Rightarrow> False | _ \<Rightarrow> True)"

text \<open>The loop of \<open>CompositeParameter._get_parts\<close> over \<open>self.parts\<close>; \<open>rec\<close> is the
  recursive call \<open>p._get_parts()\<close>, \<open>acc\<close> the list \<open>parts\<close> built so far.\<close>

fun get_parts_loop ::
  "(addr \<Rightarrow> addr list result option) \<Rightarrow> heap \<Rightarrow> addr \<Rightarrow> addr list \<Rightarrow> addr list
     \<Rightarrow> addr list result option" where
  "get_parts_loop rec h self [] acc = Some (Return acc)"
| "get_parts_loop rec h self (p # ps) acc =
     (if p = self then Some (Raise AssertionError)
      else (case h p of
        None \<Rightarrow> None
      | Some po \<Rightarrow>
          if is_composite po then
            (case rec p of
               None \<Rightarrow> None
             | Some (Raise e) \<Rightarrow> Some (Raise e)
             | Some (Return sub) \<Rightarrow> get_parts_loop rec h self ps ((acc @ [p]) @ sub))
          else get_parts_loop rec h self ps (acc @ [p])))"

definition get_parts_body ::
  "(addr \<Rightarrow> addr list result option) \<Rightarrow> heap \<Rightarrow> addr \<Rightarrow> addr list result option" where
  "get_parts_body rec h self =
     (case h self of None \<Rightarrow> None | Some sp \<Rightarrow> get_parts_loop rec h self (parts sp) [])"

primrec get_parts :: "nat \<Rightarrow> heap \<Rightarrow> addr \<Rightarrow> addr list result option" where
  "get_parts 0 h = get_parts_body (\<lambda>p. None) h"
| "get_parts (Suc n) h = get_parts_body (get_parts n h) h"

text \<open>\<open>iter(x)\<close>: \<open>Parameter.__iter__\<close> yields the object itself,
  \<open>CompositeParameter.__iter__\<close> its flattened parts.\<close>

definition iter :: "nat \<Rightarrow> heap \<Rightarrow> addr \<Rightarrow> addr list result option" where
  "iter n h x =
     (case h x of
        None \<Rightarrow> None
      | Some xp \<Rightarrow> if is_composite xp then get_parts n h x else Some (Return [x]))"

text \<open>\<open>self in x\<close>: no class defines \<open>__contains__\<close> or \<open>__eq__\<close>, so Python walks
  \<open>iter(x)\<close> and compares identities.\<close>

definition contains :: "nat \<Rightarrow> heap \<Rightarrow> addr \<Rightarrow> addr \<Rightarrow> bool result option" where
  "contains n h x self =
     (case iter n h x of
        None \<Rightarrow> None
      | Some (Raise e) \<Rightarrow> Some (Raise e)
      | Some (Return xs) \<Rightarrow> Some (Return (self \<in> set xs)))"

subsection \<open>Reading a value\<close>

text \<open>\<open>eval\<close> of the four composite classes; \<open>rec\<close> is the property read \<open>x.val\<close>
  of another object. \<open>BinaryOpParameter.eval\<close> reads \<open>lhs.val\<close> first. A plain
  \<open>Parameter\<close> has no \<open>eval\<close>, and the getters below do not call it there.\<close>

definition eval_body :: "(addr \<Rightarrow> SherpaFloat result option) \<Rightarrow> param \<Rightarrow> SherpaFloat result option" where
  "eval_body rec p =
     (case cls p of
        Parameter \<Rightarrow> None
      | CompositeParameter \<Rightarrow> Some (Raise NotImplementedError)
      | ConstantParameter v \<Rightarrow> Some (Return v)
      | UnaryOpParameter op x \<Rightarrow>
          (case rec x of
             None \<Rightarrow> None
           | Some (Raise e) \<Rightarrow> Some (Raise e)
           | Some (Return v) \<Rightarrow> Some (Return (op v)))
      | BinaryOpParameter op l r \<Rightarrow>
          (case rec l of
             None \<Rightarrow> None
           | Some (Raise e) \<Rightarrow> Some (Raise e)
           | Some (Return vl) \<Rightarrow>
               (case rec r of
                  None \<Rightarrow> None
                | Some (Raise e) \<Rightarrow> Some (Raise e)
                | Some (Return vr) \<Rightarrow> Some (Return (op vl vr)))))"

text \<open>\<open>Parameter._get_val\<close>.\<close>

definition get_val_body :: "(addr \<Rightarrow> SherpaFloat result option) \<Rightarrow> heap \<Rightarrow> addr \<Rightarrow> SherpaFloat result option" where
  "get_val_body rec h self =
     (case h self of
        None \<Rightarrow> None
      | Some sp \<Rightarrow>
          if is_composite sp then eval_body rec sp
          else (case p_link sp of
            None \<Rightarrow> Some (Return (p_val sp))
          | Some l \<Rightarrow>
              (case rec l of
                 None \<Rightarrow> None
               | Some (Raise e) \<Rightarrow> Some (Raise e)
               | Some (Return v) \<Rightarrow>
                   if v < p_min sp then
                     Some (Raise (ParameterErr_edge (fullname sp) ''minimum'' (p_min sp)))
                   else if v > p_max sp then
                     Some (Raise (ParameterErr_edge (fullname sp) ''maximum'' (p_max sp)))
                   else Some (Return v))))"

primrec get_val :: "nat \<Rightarrow> heap \<Rightarrow> addr \<Rightarrow> SherpaFloat result option" where
  "get_val 0 h = get_val_body (\<lambda>x. None) h"
| "get_val (Suc n) h = get_val_body (get_val n h) h"

text \<open>\<open>Parameter._get_default_val\<close>.\<close>

definition get_default_val_body ::
  "nat \<Rightarrow> (addr \<Rightarrow> SherpaFloat result option) \<Rightarrow> heap \<Rightarrow> addr \<Rightarrow> SherpaFloat result option" where
  "get_default_val_body n rec h self =
     (case h self of
        None \<Rightarrow> None
      | Some sp \<Rightarrow>
          if is_composite sp then eval_body (get_val n h) sp
          else (case p_link sp of
            Some l \<Rightarrow> rec l
          | None \<Rightarrow> Some (Return (p_default_val sp))))"

primrec get_default_val :: "nat \<Rightarrow> nat \<Rightarrow> heap \<Rightarrow> addr \<Rightarrow> SherpaFloat result option" where
  "get_default_val n 0 h = get_default_val_body n (\<lambda>x. None) h"
| "get_default_val n (Suc k) h = get_default_val_body n (get_default_val n k h) h"

subsection \<open>The link property\<close>

text \<open>The \<open>while\<close> loop of \<open>Parameter._set_link\<close>: one iteration at the object \<open>ll\<close>
  with the flag \<open>cycle\<close>; \<open>rec\<close> is the rest of the loop. \<open>ll == self\<close> is tested
  first, and \<open>self in ll\<close> only when it is false.\<close>

definition link_loop_body ::
  "nat \<Rightarrow> (addr \<Rightarrow> bool \<Rightarrow> bool result option) \<Rightarrow> heap \<Rightarrow> addr \<Rightarrow> addr \<Rightarrow> bool
     \<Rightarrow> bool result option" where
  "link_loop_body n rec h self ll cycle =
     (case h ll of
        None \<Rightarrow> None
      | Some lp \<Rightarrow>
          (case (if ll = self then Some (Return True) else contains n h ll self) of
             None \<Rightarrow> None
           | Some (Raise e) \<Rightarrow> Some (Raise e)
           | Some (Return hit) \<Rightarrow>
               (case p_link lp of
                  None \<Rightarrow> Some (Return (cycle \<or> hit))
                | Some l \<Rightarrow> rec l (cycle \<or> hit))))"

primrec link_loop :: "nat \<Rightarrow> nat \<Rightarrow> heap \<Rightarrow> addr \<Rightarrow> addr \<Rightarrow> bool \<Rightarrow> bool result option" where
  "link_loop n 0 h self = link_loop_body n (\<lambda>l c. None) h self"
| "link_loop n (Suc k) h self = link_loop_body n (link_loop n k h self) h self"

text \<open>\<open>Parameter._set_link\<close>. The assignment \<open>link.link = None\<close> of the long-cycle
  branch enters the setter of \<open>link\<close> with \<open>None\<close>, which only stores \<open>None\<close>.\<close>

definition set_link :: "nat \<Rightarrow> addr \<Rightarrow> pyval option \<Rightarrow> unit cmd" where
  "set_link n self link =
     (case link of
        None \<Rightarrow> modify self (\<lambda>p. p\<lparr>p_link := None\<rparr>)
      | Some v \<Rightarrow>
          seq (obj self) (\<lambda>sp.
            if p_alwaysfrozen sp then raise (ParameterErr_frozennolink (fullname sp))
            else (case v of
              Number x \<Rightarrow> raise ParameterErr_notlink
            | Instance l \<Rightarrow>
                seq (reading (\<lambda>h. contains n h l self)) (\<lambda>short.
                  if short then raise ParameterErr_linkcycle
                  else
                    seq (reading (\<lambda>h. link_loop n n h self l False)) (\<lambda>cycle.
                    seq (if cycle then modify l (\<lambda>p. p\<lparr>p_link := None\<rparr>) else ret ()) (\<lambda>u.
                    modify self (\<lambda>p. p\<lparr>p_link := Some l\<rparr>)))))))"

text \<open>The chain of links from an object: \<open>link_path h a xs\<close> when following \<open>.link\<close> from
  \<open>a\<close> visits the objects \<open>xs\<close>, \<open>a\<close> first, and ends at an object whose link is \<open>None\<close>.
  These are the values \<open>ll\<close> takes in the loop of the link setter.\<close>

inductive link_path :: "heap \<Rightarrow> addr \<Rightarrow> addr list \<Rightarrow> bool" where
  last: "h a = Some ap \<Longrightarrow> p_link ap = None \<Longrightarrow> link_path h a [a]"
| step: "h a = Some ap \<Longrightarrow> p_link ap = Some b \<Longrightarrow> link_path h b xs \<Longrightarrow> link_path h a (a # xs)"

subsection \<open>The val and default_val properties\<close>

text \<open>\<open>Parameter._set_val\<close>.\<close>

definition set_val :: "nat \<Rightarrow> addr \<Rightarrow> pyval \<Rightarrow> unit cmd" where
  "set_val n self v =
     (case v of
        Instance l \<Rightarrow> set_link n self (Some (Instance l))
      | Number x \<Rightarrow>
          seq (set_link n self None) (\<lambda>u.
          seq (obj self) (\<lambda>sp.
            if x < p_min sp then
              raise (ParameterErr_edge (fullname sp) ''minimum'' (p_min sp))
            else if x > p_max sp then
              raise (ParameterErr_edge (fullname sp) ''maximum'' (p_max sp))
            else modify self (\<lambda>p. p\<lparr>p_val := x, p_default_val := x\<rparr>))))"

text \<open>\<open>Parameter._set_default_val\<close>.\<close>

definition set_default_val :: "nat \<Rightarrow> addr \<Rightarrow> pyval \<Rightarrow> unit cmd" where
  "set_default_val n self v =
     (case v of
        Instance l \<Rightarrow> set_link n self (Some (Instance l))
      | Number x \<Rightarrow>
          seq (set_link n self None) (\<lambda>u.
          seq (obj self) (\<lambda>sp.
            if x < p_min sp then
              raise (ParameterErr_edge (fullname sp) ''minimum'' (p_min sp))
            else if x > p_max sp then
              raise (ParameterErr_edge (fullname sp) ''maximum'' (p_max sp))
            else modify self (\<lambda>p. p\<lparr>p_default_val := x\<rparr>))))"

subsection \<open>Attribute stores\<close>

text \<open>Modelled from the spec: the base class \<open>NoNewAttributesAfterInit\<close> of \<open>sherpa.utils\<close>
  is not among the sources, and the spec names only its private flag "initialized". Its
  \<open>__setattr__\<close> runs at every store \<open>self.x = v\<close>. On an object whose flag is set it tests
  \<open>hasattr(self, name)\<close> and reads \<open>getattr(self, name)\<close>, to refuse a new attribute and
  the replacement of a callable by a value or of a value by a callable, and only then calls
  \<open>object.__setattr__\<close>, which for a property is the call of its setter. For a property
  the read is a call of its getter: an exception of the getter (other than
  \<open>AttributeError\<close>) ends the store before the setter runs. While the flag is not set,
  which is during \<open>__init__\<close>, the store calls the setter at once.

  \<open>getter\<close> is the read of the attribute and \<open>store\<close> the call of the setter. The
  attributes stored in this module exist, and the numbers and \<open>Parameter\<close> instances
  stored and read are not callable, so neither test of the method raises.\<close>

definition NoNewAttributesAfterInit_setattr ::
  "addr \<Rightarrow> (heap \<Rightarrow> 'a result option) \<Rightarrow> unit cmd \<Rightarrow> unit cmd" where
  "NoNewAttributesAfterInit_setattr self getter store =
     seq (obj self) (\<lambda>sp.
       if initialized sp then seq (reading getter) (\<lambda>old. store) else store)"

text \<open>The statements \<open>self.val = v\<close> and \<open>self.default_val = v\<close>, whose getters can raise.
  The getters of \<open>min\<close>, \<open>max\<close>, \<open>default_min\<close>, \<open>default_max\<close>, \<open>link\<close> and
  \<open>frozen\<close> return a stored attribute (\<open>frozen\<close> after a test of the stored link) and
  cannot raise, and so cannot the read of a plain attribute such as \<open>_val\<close>; a store to
  one of these is its setter, or the update of the attribute, and nothing else.\<close>

definition assign_val :: "nat \<Rightarrow> addr \<Rightarrow> pyval \<Rightarrow> unit cmd" where
  "assign_val n self v =
     NoNewAttributesAfterInit_setattr self (\<lambda>h. get_val n h self) (set_val n self v)"

definition assign_default_val :: "nat \<Rightarrow> addr \<Rightarrow> pyval \<Rightarrow> unit cmd" where
  "assign_default_val n self v =
     NoNewAttributesAfterInit_setattr self (\<lambda>h. get_default_val n n h self)
       (set_default_val n self v)"

subsection \<open>The limit properties\<close>

text \<open>The four setters made by \<open>_make_set_limit\<close>, by the attribute \<open>name\<close> they store.\<close>

datatype limit = Lim_min | Lim_max | Lim_default_min | Lim_default_max

definition with_limit :: "limit \<Rightarrow> SherpaFloat \<Rightarrow> param \<Rightarrow> param" where
  "with_limit attr x p =
     (case attr of
        Lim_min \<Rightarrow> p\<lparr>p_min := x\<rparr>
      | Lim_max \<Rightarrow> p\<lparr>p_max := x\<rparr>
      | Lim_default_min \<Rightarrow> p\<lparr>p_default_min := x\<rparr>
      | Lim_default_max \<Rightarrow> p\<lparr>p_default_max := x\<rparr>)"

definition setattr :: "limit \<Rightarrow> addr \<Rightarrow> SherpaFloat \<Rightarrow> unit cmd" where
  "setattr attr self x = modify self (with_limit attr x)"

text \<open>The block of \<open>_set_limit\<close> that runs once the object is initialized: two
  \<open>if\<close> statements in sequence. Each reads \<open>self.val\<close>, assigns \<open>self.val = val\<close> and
  reads \<open>self.val\<close> again for the text of the warning.\<close>

definition auto_repair :: "limit \<Rightarrow> nat \<Rightarrow> addr \<Rightarrow> SherpaFloat \<Rightarrow> unit cmd" where
  "auto_repair attr n self x =
     seq (if attr = Lim_min then
            seq (reading (\<lambda>h. get_val n h self)) (\<lambda>cur.
              if x > cur then
                seq (assign_val n self (Number x)) (\<lambda>u.
                seq (obj self) (\<lambda>sp.
                seq (reading (\<lambda>h. get_val n h self)) (\<lambda>now.
                warn (Less_than_new_minimum (fullname sp) now))))
              else ret ())
          else ret ()) (\<lambda>u.
     if attr = Lim_max then
       seq (reading (\<lambda>h. get_val n h self)) (\<lambda>cur.
         if x < cur then
           seq (assign_val n self (Number x)) (\<lambda>u.
           seq (obj self) (\<lambda>sp.
           seq (reading (\<lambda>h. get_val n h self)) (\<lambda>now.
           warn (Greater_than_new_maximum (fullname sp) now))))
         else ret ())
     else ret ())"

definition set_limit :: "limit \<Rightarrow> nat \<Rightarrow> addr \<Rightarrow> SherpaFloat \<Rightarrow> unit cmd" where
  "set_limit attr n self x =
     seq (obj self) (\<lambda>sp.
       if x < p_hard_min sp then
         raise (ParameterErr_edge (fullname sp) ''hard minimum'' (p_hard_min sp))
       else if x > p_hard_max sp then
         raise (ParameterErr_edge (fullname sp) ''hard maximum'' (p_hard_max sp))
       else
         seq (if initialized sp then auto_repair attr n self x else ret ()) (\<lambda>u.
         setattr attr self x))"

subsection \<open>frozen, reset and set\<close>

text \<open>\<open>Parameter._set_frozen\<close>, \<open>freeze\<close>, \<open>thaw\<close> and \<open>unlink\<close>.\<close>

definition set_frozen :: "addr \<Rightarrow> bool \<Rightarrow> unit cmd" where
  "set_frozen self b =
     seq (obj self) (\<lambda>sp.
       if p_alwaysfrozen sp \<and> \<not> b then raise (ParameterErr_alwaysfrozen (fullname sp))
       else modify self (\<lambda>p. p\<lparr>p_frozen := b\<rparr>))"

definition freeze :: "addr \<Rightarrow> unit cmd" where
  "freeze self = set_frozen self True"

definition thaw :: "addr \<Rightarrow> unit cmd" where
  "thaw self = set_frozen self False"

definition unlink :: "nat \<Rightarrow> addr \<Rightarrow> unit cmd" where
  "unlink n self = set_link n self None"

text \<open>\<open>Parameter.reset\<close>: the limits come from the attributes \<open>default_min\<close> and
  \<open>default_max\<close>, the value from the property \<open>default_val\<close>; nothing is validated.\<close>

definition reset :: "nat \<Rightarrow> addr \<Rightarrow> unit cmd" where
  "reset n self =
     seq (obj self) (\<lambda>sp.
     seq (if p_guessed sp then
            modify self (\<lambda>p. p\<lparr>p_min := p_default_min p, p_max := p_default_max p,
                                 p_guessed := False\<rparr>)
          else ret ()) (\<lambda>u.
     seq (reading (\<lambda>h. get_default_val n n h self)) (\<lambda>d.
     modify self (\<lambda>p. p\<lparr>p_val := d\<rparr>))))"

text \<open>The keyword arguments of \<open>Parameter.set\<close>; \<open>None\<close> is an argument left out.\<close>

record set_args =
  a_val :: "pyval option"
  a_min :: "SherpaFloat option"
  a_max :: "SherpaFloat option"
  a_frozen :: "bool option"
  a_default_val :: "pyval option"
  a_default_min :: "SherpaFloat option"
  a_default_max :: "SherpaFloat option"

text \<open>One statement \<open>if x is not None and cond: action\<close> of \<open>Parameter.set\<close>.\<close>

definition when_given :: "'a option \<Rightarrow> (param \<Rightarrow> 'a \<Rightarrow> bool) \<Rightarrow> addr \<Rightarrow> ('a \<Rightarrow> unit cmd) \<Rightarrow> unit cmd" where
  "when_given arg cond self act =
     (case arg of
        None \<Rightarrow> ret ()
      | Some x \<Rightarrow> seq (obj self) (\<lambda>sp. if cond sp x then act x else ret ()))"

text \<open>\<open>Parameter.set\<close>.\<close>

definition Parameter_set :: "nat \<Rightarrow> addr \<Rightarrow> set_args \<Rightarrow> unit cmd" where
  "Parameter_set n self a =
     seq (when_given (a_max a) (\<lambda>sp x. x > p_max sp) self (set_limit Lim_max n self)) (\<lambda>u.
     seq (when_given (a_default_max a) (\<lambda>sp x. x > p_default_max sp) self
            (set_limit Lim_default_max n self)) (\<lambda>u.
     seq (when_given (a_min a) (\<lambda>sp x. x < p_min sp) self (set_limit Lim_min n self)) (\<lambda>u.
     seq (when_given (a_default_min a) (\<lambda>sp x. x < p_default_min sp) self
            (set_limit Lim_default_min n self)) (\<lambda>u.
     seq (when_given (a_val a) (\<lambda>sp x. True) self (assign_val n self)) (\<lambda>u.
     seq (when_given (a_default_val a) (\<lambda>sp x. True) self (assign_default_val n self)) (\<lambda>u.
     seq (when_given (a_min a) (\<lambda>sp x. True) self (set_limit Lim_min n self)) (\<lambda>u.
     seq (when_given (a_max a) (\<lambda>sp x. True) self (set_limit Lim_max n self)) (\<lambda>u.
     seq (when_given (a_default_min a) (\<lambda>sp x. True) self
            (set_limit Lim_default_min n self)) (\<lambda>u.
     seq (when_given (a_default_max a) (\<lambda>sp x. True) self
            (set_limit Lim_default_max n self)) (\<lambda>u.
     when_given (a_frozen a) (\<lambda>sp x. True) self (set_frozen self)))))))))))"

subsection \<open>Construction\<close>

text \<open>The arguments of \<open>Parameter.__init__\<close>.\<close>

record init_args =
  i_modelname :: string
  i_name :: string
  i_val :: SherpaFloat
  i_min :: SherpaFloat
  i_max :: SherpaFloat
  i_hard_min :: SherpaFloat
  i_hard_max :: SherpaFloat
  i_units :: string
  i_frozen :: bool
  i_alwaysfrozen :: bool
  i_hidden :: bool
  i_aliases :: "string list option"

text \<open>The call \<open>Parameter(modelname, name, val)\<close> with every keyword left at its default.\<close>

definition default_args :: "string \<Rightarrow> string \<Rightarrow> SherpaFloat \<Rightarrow> init_args" where
  "default_args m nm v =
     \<lparr>i_modelname = m, i_name = nm, i_val = v, i_min = - hugeval, i_max = hugeval,
      i_hard_min = - hugeval, i_hard_max = hugeval, i_units = [], i_frozen = False,
      i_alwaysfrozen = False, i_hidden = False, i_aliases = None\<rparr>"

text \<open>\<open>str.lower\<close>, on ASCII letters.\<close>

definition lower_char :: "char \<Rightarrow> char" where
  "lower_char c =
     (if 65 \<le> (of_char c :: nat) \<and> (of_char c :: nat) \<le> 90
      then char_of ((of_char c :: nat) + 32) else c)"

definition lower :: "string \<Rightarrow> string" where
  "lower s = map lower_char s"

text \<open>A new object, before \<open>__init__\<close> has run: it has its class, the class
  attribute \<open>initialized = False\<close> of the base class, and the attributes a subclass
  assigns before it calls \<open>Parameter.__init__\<close>. The other fields stand for attributes
  that do not exist yet; \<open>__init__\<close> assigns each of them before it is read.\<close>

definition blank :: "cls \<Rightarrow> addr list \<Rightarrow> param" where
  "blank c ps =
     \<lparr>cls = c, parts = ps, modelname = [], name = [], fullname = [],
      p_hard_min = 0, p_hard_max = 0, units = [], p_alwaysfrozen = False,
      p_frozen = False, hidden = False, p_min = 0, p_max = 0, p_val = 0,
      p_default_min = 0, p_default_max = 0, p_default_val = 0, p_link = None,
      p_guessed = False, aliases = [], initialized = False\<rparr>"

definition new_object :: "cls \<Rightarrow> addr list \<Rightarrow> addr cmd" where
  "new_object c ps w =
     Some (Return (next_addr w),
           w\<lparr>heap := (heap w)(next_addr w \<mapsto> blank c ps), next_addr := Suc (next_addr w)\<rparr>)"

text \<open>Modelled from the spec: the base class \<open>NoNewAttributesAfterInit\<close> of
  \<open>sherpa.utils\<close> is not among the sources. Its part here is the private flag
  "initialized" that guards the auto-repair of the limit setter "so it does not fire
  during \<open>__init__\<close>": the class attribute is false, so a new object reads it as false
  (see \<open>blank\<close>), and \<open>NoNewAttributesAfterInit.__init__\<close> sets it on the instance.\<close>

definition NoNewAttributesAfterInit_init :: "addr \<Rightarrow> unit cmd" where
  "NoNewAttributesAfterInit_init self = modify self (\<lambda>p. p\<lparr>initialized := True\<rparr>)"

text \<open>\<open>Parameter.__init__\<close>. The plain attribute stores before \<open>self.min = min\<close> are one
  step, the property assignments follow in the order of the source.\<close>

definition Parameter_init :: "nat \<Rightarrow> addr \<Rightarrow> init_args \<Rightarrow> unit cmd" where
  "Parameter_init n self a =
     seq (modify self (\<lambda>p. p\<lparr>modelname := i_modelname a, name := i_name a,
            fullname := i_modelname a @ ''.'' @ i_name a,
            p_hard_min := i_hard_min a, p_hard_max := i_hard_max a, units := i_units a,
            p_alwaysfrozen := i_alwaysfrozen a,
            p_frozen := (if i_alwaysfrozen a then True else i_frozen a),
            hidden := i_hidden a\<rparr>)) (\<lambda>u.
     seq (set_limit Lim_min n self (i_min a)) (\<lambda>u.
     seq (set_limit Lim_max n self (i_max a)) (\<lambda>u.
     seq (assign_val n self (Number (i_val a))) (\<lambda>u.
     seq (set_limit Lim_default_min n self (i_min a)) (\<lambda>u.
     seq (set_limit Lim_default_max n self (i_max a)) (\<lambda>u.
     seq (assign_default_val n self (Number (i_val a))) (\<lambda>u.
     seq (set_link n self None) (\<lambda>u.
     seq (modify self (\<lambda>p. p\<lparr>p_guessed := False,
            aliases := (case i_aliases a of None \<Rightarrow> [] | Some xs \<Rightarrow> map lower xs)\<rparr>)) (\<lambda>u.
     NoNewAttributesAfterInit_init self)))))))))"

text \<open>\<open>CompositeParameter.__init__\<close>; \<open>self.parts\<close> is in the new object already.\<close>

definition CompositeParameter_init :: "nat \<Rightarrow> addr \<Rightarrow> string \<Rightarrow> unit cmd" where
  "CompositeParameter_init n self nm =
     seq (Parameter_init n self (default_args [] nm 0)) (\<lambda>u.
     modify self (\<lambda>p. p\<lparr>fullname := nm\<rparr>))"

text \<open>The constructor calls: a new object, its \<open>__init__\<close>, and the object as result.\<close>

definition Parameter_new :: "nat \<Rightarrow> init_args \<Rightarrow> addr cmd" where
  "Parameter_new n a =
     seq (new_object Parameter []) (\<lambda>self.
     seq (Parameter_init n self a) (\<lambda>u. ret self))"

definition CompositeParameter_new :: "nat \<Rightarrow> string \<Rightarrow> addr list \<Rightarrow> addr cmd" where
  "CompositeParameter_new n nm ps =
     seq (new_object CompositeParameter ps) (\<lambda>self.
     seq (CompositeParameter_init n self nm) (\<lambda>u. ret self))"

text \<open>\<open>ConstantParameter(value)\<close>: \<open>txt\<close> is the text \<open>str(value)\<close> that Python prints for
  the literal, which names the object.\<close>

definition ConstantParameter_new :: "nat \<Rightarrow> string \<Rightarrow> SherpaFloat \<Rightarrow> addr cmd" where
  "ConstantParameter_new n txt v =
     seq (new_object (ConstantParameter v) []) (\<lambda>self.
     seq (CompositeParameter_init n self txt) (\<lambda>u. ret self))"

definition UnaryOpParameter_new :: "nat \<Rightarrow> addr \<Rightarrow> (SherpaFloat \<Rightarrow> SherpaFloat) \<Rightarrow> string \<Rightarrow> addr cmd" where
  "UnaryOpParameter_new n arg op opstr =
     seq (obj arg) (\<lambda>ap.
     seq (new_object (UnaryOpParameter op arg) [arg]) (\<lambda>self.
     seq (CompositeParameter_init n self (opstr @ ''('' @ fullname ap @ '')'')) (\<lambda>u.
     ret self)))"

text \<open>An operand of a binary operator: a \<open>Parameter\<close> instance, or a plain number
  given with the text \<open>str\<close> prints for it.\<close>

datatype operand = Operand addr | Literal string SherpaFloat

text \<open>\<open>BinaryOpParameter.wrapobj\<close>.\<close>

definition wrapobj :: "nat \<Rightarrow> operand \<Rightarrow> addr cmd" where
  "wrapobj n x = (case x of Operand a \<Rightarrow> ret a | Literal txt v \<Rightarrow> ConstantParameter_new n txt v)"

definition BinaryOpParameter_new ::
  "nat \<Rightarrow> operand \<Rightarrow> operand \<Rightarrow> (SherpaFloat \<Rightarrow> SherpaFloat \<Rightarrow> SherpaFloat) \<Rightarrow> string \<Rightarrow> addr cmd" where
  "BinaryOpParameter_new n lhs rhs op opstr =
     seq (wrapobj n lhs) (\<lambda>l.
     seq (wrapobj n rhs) (\<lambda>r.
     seq (obj l) (\<lambda>lp.
     seq (obj r) (\<lambda>rp.
     seq (new_object (BinaryOpParameter op l r) [l, r]) (\<lambda>self.
     seq (CompositeParameter_init n self
            (''('' @ fullname lp @ '' '' @ opstr @ '' '' @ fullname rp @ '')'')) (\<lambda>u.
     ret self))))))"

text \<open>The closed form of a successful construction. \<open>valid_args\<close> collects the checks
  that the property setters make during \<open>Parameter.__init__\<close>: none of the comparisons
  that raise is true. \<open>constructed\<close> is the object the construction leaves, and
  \<open>composite_object\<close> the object \<open>CompositeParameter.__init__\<close> leaves. The lemmas
  \<open>Parameter_init_valid\<close>, \<open>Parameter_init_invalid\<close> and \<open>CompositeParameter_init_blank\<close>
  below derive them from the code.\<close>

definition valid_args :: "init_args \<Rightarrow> bool" where
  "valid_args a =
     (\<not> i_min a < i_hard_min a \<and> \<not> i_min a > i_hard_max a
      \<and> \<not> i_max a < i_hard_min a \<and> \<not> i_max a > i_hard_max a
      \<and> \<not> i_val a < i_min a \<and> \<not> i_val a > i_max a)"

definition constructed :: "cls \<Rightarrow> addr list \<Rightarrow> init_args \<Rightarrow> param" where
  "constructed c ps a =
     \<lparr>cls = c, parts = ps, modelname = i_modelname a, name = i_name a,
      fullname = i_modelname a @ ''.'' @ i_name a,
      p_hard_min = i_hard_min a, p_hard_max = i_hard_max a, units = i_units a,
      p_alwaysfrozen = i_alwaysfrozen a,
      p_frozen = (if i_alwaysfrozen a then True else i_frozen a), hidden = i_hidden a,
      p_min = i_min a, p_max = i_max a, p_val = i_val a,
      p_default_min = i_min a, p_default_max = i_max a, p_default_val = i_val a,
      p_link = None, p_guessed = False,
      aliases = (case i_aliases a of None \<Rightarrow> [] | Some xs \<Rightarrow> map lower xs),
      initialized = True\<rparr>"

definition composite_object :: "cls \<Rightarrow> addr list \<Rightarrow> string \<Rightarrow> param" where
  "composite_object c ps nm = (constructed c ps (default_args [] nm 0))\<lparr>fullname := nm\<rparr>"

subsection \<open>Operators\<close>

text \<open>The numpy functions the operators pass on, on \<open>SherpaFloat\<close> values: the arithmetic
  of the section on numbers.\<close>

definition np_negative :: "SherpaFloat \<Rightarrow> SherpaFloat" where
  "np_negative x = - x"

definition np_absolute :: "SherpaFloat \<Rightarrow> SherpaFloat" where
  "np_absolute x = \<bar>x\<bar>"

definition np_add :: "SherpaFloat \<Rightarrow> SherpaFloat \<Rightarrow> SherpaFloat" where
  "np_add x y = x + y"

definition np_subtract :: "SherpaFloat \<Rightarrow> SherpaFloat \<Rightarrow> SherpaFloat" where
  "np_subtract x y = x - y"

definition np_multiply :: "SherpaFloat \<Rightarrow> SherpaFloat \<Rightarrow> SherpaFloat" where
  "np_multiply x y = x * y"

definition np_true_divide :: "SherpaFloat \<Rightarrow> SherpaFloat \<Rightarrow> SherpaFloat" where
  "np_true_divide x y = x / y"

text \<open>\<open>__neg__\<close> and \<open>__abs__\<close>; \<open>__add__\<close> and \<open>__radd__\<close>, and so on: the forward
  method has \<open>self\<close> on the left, the reflected one on the right.\<close>

definition Parameter_neg :: "nat \<Rightarrow> addr \<Rightarrow> addr cmd" where
  "Parameter_neg n self = UnaryOpParameter_new n self np_negative ''-''"

definition Parameter_abs :: "nat \<Rightarrow> addr \<Rightarrow> addr cmd" where
  "Parameter_abs n self = UnaryOpParameter_new n self np_absolute ''abs''"

definition Parameter_add :: "nat \<Rightarrow> addr \<Rightarrow> operand \<Rightarrow> addr cmd" where
  "Parameter_add n self rhs = BinaryOpParameter_new n (Operand self) rhs np_add ''+''"

definition Parameter_radd :: "nat \<Rightarrow> addr \<Rightarrow> operand \<Rightarrow> addr cmd" where
  "Parameter_radd n self lhs = BinaryOpParameter_new n lhs (Operand self) np_add ''+''"

definition Parameter_sub :: "nat \<Rightarrow> addr \<Rightarrow> operand \<Rightarrow> addr cmd" where
  "Parameter_sub n self rhs = BinaryOpParameter_new n (Operand self) rhs np_subtract ''-''"

definition Parameter_rsub :: "nat \<Rightarrow> addr \<Rightarrow> operand \<Rightarrow> addr cmd" where
  "Parameter_rsub n self lhs = BinaryOpParameter_new n lhs (Operand self) np_subtract ''-''"

definition Parameter_mul :: "nat \<Rightarrow> addr \<Rightarrow> operand \<Rightarrow> addr cmd" where
  "Parameter_mul n self rhs = BinaryOpParameter_new n (Operand self) rhs np_multiply ''*''"

definition Parameter_rmul :: "nat \<Rightarrow> addr \<Rightarrow> operand \<Rightarrow> addr cmd" where
  "Parameter_rmul n self lhs = BinaryOpParameter_new n lhs (Operand self) np_multiply ''*''"

definition Parameter_truediv :: "nat \<Rightarrow> addr \<Rightarrow> operand \<Rightarrow> addr cmd" where
  "Parameter_truediv n self rhs =
     BinaryOpParameter_new n (Operand self) rhs np_true_divide ''/''"

definition Parameter_rtruediv :: "nat \<Rightarrow> addr \<Rightarrow> operand \<Rightarrow> addr cmd" where
  "Parameter_rtruediv n self lhs =
     BinaryOpParameter_new n lhs (Operand self) np_true_divide ''/''"

text \<open>The expression \<open>(p + q) / 2\<close>: \<open>p.__add__(q)\<close>, then \<open>__truediv__\<close> of the sum with
  the literal \<open>2\<close>, printed as \<open>txt\<close>.\<close>

definition mean_expr :: "nat \<Rightarrow> addr \<Rightarrow> addr \<Rightarrow> string \<Rightarrow> addr cmd" where
  "mean_expr n p q txt =
     seq (Parameter_add n p (Operand q)) (\<lambda>s. Parameter_truediv n s (Literal txt 2))"

subsection \<open>Programs\<close>

text \<open>The statements of a client program, and their execution in order; an exception
  ends the program, as an uncaught exception does. Objects are numbered in the order
  of their creation, from \<open>0\<close> in the empty world. An assignment to \<open>val\<close> or
  \<open>default_val\<close> is the store of the section on attribute stores, which reads the
  attribute before it calls the setter; the other assignments are the calls of their
  setters.\<close>

datatype stmt =
    New init_args
  | New_unary "SherpaFloat \<Rightarrow> SherpaFloat" string addr
  | New_binary "SherpaFloat \<Rightarrow> SherpaFloat \<Rightarrow> SherpaFloat" string operand operand
  | Assign_val addr pyval
  | Assign_min addr SherpaFloat
  | Assign_max addr SherpaFloat
  | Assign_default_val addr pyval
  | Assign_default_min addr SherpaFloat
  | Assign_default_max addr SherpaFloat
  | Assign_link addr "pyval option"
  | Call_set addr set_args
  | Call_reset addr
  | Call_freeze addr
  | Call_thaw addr
  | Call_unlink addr

definition discard :: "'a cmd \<Rightarrow> unit cmd" where
  "discard m = seq m (\<lambda>x. ret ())"

fun exec :: "nat \<Rightarrow> stmt \<Rightarrow> unit cmd" where
  "exec n (New a) = discard (Parameter_new n a)"
| "exec n (New_unary op opstr x) = discard (UnaryOpParameter_new n x op opstr)"
| "exec n (New_binary op opstr l r) = discard (BinaryOpParameter_new n l r op opstr)"
| "exec n (Assign_val p v) = assign_val n p v"
| "exec n (Assign_min p x) = set_limit Lim_min n p x"
| "exec n (Assign_max p x) = set_limit Lim_max n p x"
| "exec n (Assign_default_val p v) = assign_default_val n p v"
| "exec n (Assign_default_min p x) = set_limit Lim_default_min n p x"
| "exec n (Assign_default_max p x) = set_limit Lim_default_max n p x"
| "exec n (Assign_link p l) = set_link n p l"
| "exec n (Call_set p a) = Parameter_set n p a"
| "exec n (Call_reset p) = reset n p"
| "exec n (Call_freeze p) = freeze p"
| "exec n (Call_thaw p) = thaw p"
| "exec n (Call_unlink p) = unlink n p"

fun run :: "nat \<Rightarrow> stmt list \<Rightarrow> unit cmd" where
  "run n [] = ret ()"
| "run n (s # ss) = seq (exec n s) (\<lambda>u. run n ss)"

definition empty_world :: world where
  "empty_world = \<lparr>heap = Map.empty, next_addr = 0, warnings = []\<rparr>"

text \<open>The result of a command from a world (\<open>None\<close>, \<open>Raise e\<close> or \<open>Return x\<close>), and the
  world it leaves, whether it returned or raised.\<close>

definition outcome :: "'a cmd \<Rightarrow> world \<Rightarrow> 'a result option" where
  "outcome m w = (case m w of None \<Rightarrow> None | Some (r, w') \<Rightarrow> Some r)"

definition after :: "'a cmd \<Rightarrow> world \<Rightarrow> world" where
  "after m w = (case m w of None \<Rightarrow> w | Some (r, w') \<Rightarrow> w')"

subsection \<open>Invariants\<close>

text \<open>The two invariants as the specification words them: the bounds of the value, and
  the bounds of the default value.\<close>

definition bound_invariant :: "param \<Rightarrow> bool" where
  "bound_invariant p =
     (p_hard_min p \<le> p_min p \<and> p_min p \<le> p_val p \<and> p_val p \<le> p_max p
      \<and> p_max p \<le> p_hard_max p)"

definition default_invariant :: "param \<Rightarrow> bool" where
  "default_invariant p =
     (p_hard_min p \<le> p_default_min p \<and> p_default_min p \<le> p_default_val p
      \<and> p_default_val p \<le> p_default_max p \<and> p_default_max p \<le> p_hard_max p)"

text \<open>What the code keeps of the second: each default lies within the hard limits. The
  soft limits do too, which is what makes the property inductive.\<close>

definition defaults_within_hard_limits :: "param \<Rightarrow> bool" where
  "defaults_within_hard_limits p =
     (p_hard_min p \<le> p_default_min p \<and> p_default_min p \<le> p_hard_max p
      \<and> p_hard_min p \<le> p_default_val p \<and> p_default_val p \<le> p_hard_max p
      \<and> p_hard_min p \<le> p_default_max p \<and> p_default_max p \<le> p_hard_max p)"

definition limits_within_hard_limits :: "param \<Rightarrow> bool" where
  "limits_within_hard_limits p =
     (p_hard_min p \<le> p_min p \<and> p_min p \<le> p_hard_max p
      \<and> p_hard_min p \<le> p_max p \<and> p_max p \<le> p_hard_max p)"

definition within_hard_limits :: "param \<Rightarrow> bool" where
  "within_hard_limits p = (defaults_within_hard_limits p \<and> limits_within_hard_limits p)"

text \<open>A property of every object of a world, and a command that keeps a property of
  worlds however it ends.\<close>

definition every_object :: "(param \<Rightarrow> bool) \<Rightarrow> world \<Rightarrow> bool" where
  "every_object J w = (\<forall>a p. heap w a = Some p \<longrightarrow> J p)"

definition keeps :: "(world \<Rightarrow> bool) \<Rightarrow> 'a cmd \<Rightarrow> bool" where
  "keeps P m = (\<forall>w r w'. P w \<longrightarrow> m w = Some (r, w') \<longrightarrow> P w')"

text \<open>A statement none of whose numeric arguments is NaN: the arguments of
  \<open>Parameter(...)\<close> and of \<open>set(...)\<close>, and the number assigned to \<open>val\<close>, \<open>min\<close>,
  \<open>max\<close>, \<open>default_val\<close>, \<open>default_min\<close> or \<open>default_max\<close>.\<close>

definition number_pyval :: "pyval \<Rightarrow> bool" where
  "number_pyval v = (case v of Number x \<Rightarrow> is_number x | Instance l \<Rightarrow> True)"

definition number_args :: "init_args \<Rightarrow> bool" where
  "number_args a =
     (is_number (i_val a) \<and> is_number (i_min a) \<and> is_number (i_max a)
      \<and> is_number (i_hard_min a) \<and> is_number (i_hard_max a))"

definition number_given :: "SherpaFloat option \<Rightarrow> bool" where
  "number_given arg = (case arg of None \<Rightarrow> True | Some x \<Rightarrow> is_number x)"

definition number_pyval_given :: "pyval option \<Rightarrow> bool" where
  "number_pyval_given arg = (case arg of None \<Rightarrow> True | Some v \<Rightarrow> number_pyval v)"

definition number_set_args :: "set_args \<Rightarrow> bool" where
  "number_set_args a =
     (number_pyval_given (a_val a) \<and> number_given (a_min a) \<and> number_given (a_max a)
      \<and> number_pyval_given (a_default_val a) \<and> number_given (a_default_min a)
      \<and> number_given (a_default_max a))"

fun number_stmt :: "stmt \<Rightarrow> bool" where
  "number_stmt (New a) = number_args a"
| "number_stmt (Assign_val p v) = number_pyval v"
| "number_stmt (Assign_min p x) = is_number x"
| "number_stmt (Assign_max p x) = is_number x"
| "number_stmt (Assign_default_val p v) = number_pyval v"
| "number_stmt (Assign_default_min p x) = is_number x"
| "number_stmt (Assign_default_max p x) = is_number x"
| "number_stmt (Call_set p a) = number_set_args a"
| "number_stmt s = True"

subsection \<open>Example programs\<close>

text \<open>The call \<open>Parameter(m, nm, v, min=lo, max=hi)\<close>.\<close>

definition soft_args :: "string \<Rightarrow> string \<Rightarrow> SherpaFloat \<Rightarrow> SherpaFloat \<Rightarrow> SherpaFloat \<Rightarrow> init_args" where
  "soft_args m nm v lo hi = (default_args m nm v)\<lparr>i_min := lo, i_max := hi\<rparr>"

text \<open>The world a program leaves when it starts in the empty world.\<close>

definition world_after :: "nat \<Rightarrow> stmt list \<Rightarrow> world" where
  "world_after n prog = after (run n prog) empty_world"

text \<open>\<open>p = Parameter("m", "p", 2)\<close>, then \<open>p.val = 7; p.reset()\<close>.\<close>

definition reset_program :: "stmt list" where
  "reset_program =
     [New (default_args ''m'' ''p'' 2), Assign_val 0 (Number 7), Call_reset 0]"

text \<open>\<open>p = Parameter("m", "p", 5, min=0, max=10); q = Parameter("m", "q", 2);
  p.link = q\<close>: object \<open>0\<close> is \<open>p\<close>, object \<open>1\<close> is \<open>q\<close>.\<close>

definition linked_program :: "stmt list" where
  "linked_program =
     [New (soft_args ''m'' ''p'' 5 0 10), New (default_args ''m'' ''q'' 2),
      Assign_link 0 (Some (Instance 1))]"


text \<open>\<open>a = Parameter("m", "a", 2); b = Parameter("m", "b", 1, min=0, max=20);
  b.link = 10 - a\<close>: objects \<open>0\<close> and \<open>1\<close> are \<open>a\<close> and \<open>b\<close>, object \<open>2\<close> is the
  constant \<open>10\<close> and object \<open>3\<close> the difference, which \<open>a.__rsub__(10)\<close> builds.\<close>

definition edge_program :: "stmt list" where
  "edge_program =
     [New (default_args ''m'' ''a'' 2), New (soft_args ''m'' ''b'' 1 0 20),
      New_binary np_subtract ''-'' (Literal ''10'' 10) (Operand 0),
      Assign_link 1 (Some (Instance 3))]"

text \<open>\<open>p = Parameter("m", "p", 1, alwaysfrozen=af); e = 2 * p + 3\<close>: object \<open>0\<close> is
  \<open>p\<close>, object \<open>1\<close> the constant \<open>2\<close>, object \<open>2\<close> the product (built by
  \<open>p.__rmul__(2)\<close>), object \<open>3\<close> the constant \<open>3\<close> and object \<open>4\<close> the sum \<open>e\<close>.\<close>

definition self_link_program :: "bool \<Rightarrow> stmt list" where
  "self_link_program af =
     [New ((default_args ''m'' ''p'' 1)\<lparr>i_alwaysfrozen := af\<rparr>),
      New_binary np_multiply ''*'' (Literal ''2'' 2) (Operand 0),
      New_binary np_add ''+'' (Operand 2) (Literal ''3'' 3)]"

text \<open>\<open>p = Parameter("m", "p", 2); q = Parameter("m", "q", 4); c = (p + q) / 2\<close>: objects
  \<open>0\<close> and \<open>1\<close> are \<open>p\<close> and \<open>q\<close>, object \<open>2\<close> is the sum, object \<open>3\<close> the constant \<open>2\<close>
  and object \<open>4\<close> the quotient \<open>c\<close>.\<close>

definition flatten_program :: "stmt list" where
  "flatten_program =
     [New (default_args ''m'' ''p'' 2), New (default_args ''m'' ''q'' 4),
      New_binary np_add ''+'' (Operand 0) (Operand 1),
      New_binary np_true_divide ''/'' (Operand 2) (Literal ''2'' 2)]"

text \<open>\<open>A = Parameter("m", "a", 1); B = Parameter("m", "b", 2);
  C = Parameter("m", "c", 3, alwaysfrozen=af); A.link = B; B.link = C\<close>: objects \<open>0\<close>, \<open>1\<close>
  and \<open>2\<close>. The assignment \<open>C.link = A\<close> would close the cycle.\<close>

definition cycle_program :: "bool \<Rightarrow> stmt list" where
  "cycle_program af =
     [New (default_args ''m'' ''a'' 1), New (default_args ''m'' ''b'' 2),
      New ((default_args ''m'' ''c'' 3)\<lparr>i_alwaysfrozen := af\<rparr>),
      Assign_link 0 (Some (Instance 1)), Assign_link 1 (Some (Instance 2))]"

text \<open>\<open>p = Parameter("m", "p", 5, min=0, max=10); p.default_min = 8\<close>.\<close>

definition default_min_program :: "stmt list" where
  "default_min_program = [New (soft_args ''m'' ''p'' 5 0 10), Assign_default_min 0 8]"

text \<open>\<open>p = Parameter("m", "p", 5, min=0, max=10); p.default_val = 8; p.max = 6;
  p.reset(); p.min = 1\<close>.\<close>

definition stale_default_program :: "stmt list" where
  "stale_default_program =
     [New (soft_args ''m'' ''p'' 5 0 10), Assign_default_val 0 (Number 8), Assign_max 0 6,
      Call_reset 0, Assign_min 0 1]"

text \<open>\<open>p = Parameter("m", "p", 5, min=0, max=10); p.max = float("nan"); p.val = 1e300\<close>.\<close>

definition nan_limit_program :: "stmt list" where
  "nan_limit_program =
     [New (soft_args ''m'' ''p'' 5 0 10), Assign_max 0 NaN, Assign_val 0 (Number (Num (10 ^ 300)))]"

text \<open>\<open>p = Parameter("m", "p", hugeval); c = p + p\<close>: object \<open>0\<close> is \<open>p\<close> and object \<open>1\<close>
  the sum \<open>c\<close>.\<close>

definition doubling_program :: "stmt list" where
  "doubling_program =
     [New (default_args ''m'' ''p'' hugeval), New_binary np_add ''+'' (Operand 0) (Operand 0)]"

text \<open>\<open>p = Parameter("m", "p", 5, min=0, max=10); p.default_val = 7; p.min = 2\<close>.\<close>

definition defaults_program :: "stmt list" where
  "defaults_program =
     [New (soft_args ''m'' ''p'' 5 0 10), Assign_default_val 0 (Number 7), Assign_min 0 2]"

section \<open>Properties\<close>

subsection \<open>Numbers\<close>

text \<open>Literals denote numbers, and the operations compute on them.\<close>

lemma zero_SherpaFloat [simp]: "(0::SherpaFloat) = Num 0"
  by (simp add: zero_SherpaFloat_def)

lemma one_SherpaFloat [simp]: "(1::SherpaFloat) = Num 1"
  by (simp add: one_SherpaFloat_def)

lemma plus_SherpaFloat [simp]:
  "Num a + Num b = Num (a + b)" "NaN + y = NaN" "x + NaN = NaN"
  by (simp_all add: plus_SherpaFloat_def split: SherpaFloat.splits)

lemma numeral_SherpaFloat [simp]: "(numeral k :: SherpaFloat) = Num (numeral k)"
  by (induction k) (simp_all only: numeral.simps one_SherpaFloat_def plus_SherpaFloat)

lemma minus_SherpaFloat [simp]:
  "Num a - Num b = Num (a - b)" "NaN - y = NaN" "x - NaN = NaN"
  by (simp_all add: minus_SherpaFloat_def split: SherpaFloat.splits)

lemma uminus_SherpaFloat [simp]: "- Num a = Num (- a)" "- NaN = NaN"
  by (simp_all add: uminus_SherpaFloat_def)

lemma times_SherpaFloat [simp]:
  "Num a * Num b = Num (a * b)" "NaN * y = NaN" "x * NaN = NaN"
  by (simp_all add: times_SherpaFloat_def split: SherpaFloat.splits)

lemma divide_SherpaFloat [simp]:
  "Num a / Num b = (if b = 0 then NaN else Num (a / b))" "NaN / y = NaN" "x / NaN = NaN"
  by (simp_all add: divide_SherpaFloat_def split: SherpaFloat.splits)

lemma abs_SherpaFloat [simp]: "\<bar>Num a\<bar> = Num \<bar>a\<bar>" "\<bar>NaN\<bar> = NaN"
  by (simp_all add: abs_SherpaFloat_def)

text \<open>The comparisons: those of the real numbers on numbers, false at NaN.\<close>

lemma less_SherpaFloat [simp]:
  "Num a < Num b \<longleftrightarrow> a < b" "\<not> NaN < y" "\<not> x < NaN"
  by (simp_all add: less_SherpaFloat_def split: SherpaFloat.splits)

lemma less_eq_SherpaFloat [simp]:
  "Num a \<le> Num b \<longleftrightarrow> a \<le> b" "\<not> NaN \<le> y" "\<not> x \<le> NaN"
  by (simp_all add: less_eq_SherpaFloat_def split: SherpaFloat.splits)

lemma is_number_simps [simp]: "is_number (Num a)" "\<not> is_number NaN"
  by (simp_all add: is_number_def)

lemma is_number_iff: "is_number x \<longleftrightarrow> (\<exists>a. x = Num a)"
  by (cases x) simp_all

lemma less_eq_is_number: "x \<le> y \<Longrightarrow> is_number x \<and> is_number y"
  by (cases x; cases y) simp_all

lemma less_eq_not_less: "x \<le> y \<Longrightarrow> \<not> y < (x::SherpaFloat)"
  by (cases x; cases y) simp_all

lemma less_not_less: "x < y \<Longrightarrow> \<not> y < (x::SherpaFloat)"
  by (cases x; cases y) simp_all

lemma not_less_iff_less_eq:
  "is_number x \<Longrightarrow> is_number y \<Longrightarrow> \<not> y < x \<longleftrightarrow> x \<le> y"
  by (cases x; cases y) auto

lemma less_eq_trans_SherpaFloat: "x \<le> y \<Longrightarrow> y \<le> z \<Longrightarrow> x \<le> (z::SherpaFloat)"
  by (cases x; cases y; cases z) simp_all

text \<open>A number that passes the two tests of a setter lies between the bounds, when these
  are numbers.\<close>

lemma passes_between:
  assumes "is_number x" and "is_number lo" and "is_number hi"
    and "\<not> x < lo" and "\<not> hi < x"
  shows "lo \<le> x \<and> x \<le> hi"
  using assms by (cases x; cases lo; cases hi) auto

lemma passes_within:
  assumes "lo' \<le> lo" and "hi \<le> hi'" and "is_number x" and "\<not> x < lo" and "\<not> hi < x"
  shows "lo' \<le> x \<and> x \<le> hi'"
  using assms by (cases x; cases lo; cases hi; cases lo'; cases hi') auto

subsection \<open>Evaluation and basic facts\<close>

lemmas cmd_defs = ret_def raise_def seq_def reading_def obj_def modify_def warn_def

lemma get_val_leaf_unlinked:
  "h p = Some pp \<Longrightarrow> \<not> is_composite pp \<Longrightarrow> p_link pp = None
   \<Longrightarrow> get_val k h p = Some (Return (p_val pp))"
  by (cases k) (simp_all add: get_val_body_def)

lemma get_default_val_leaf_unlinked:
  "h p = Some pp \<Longrightarrow> \<not> is_composite pp \<Longrightarrow> p_link pp = None
   \<Longrightarrow> get_default_val n k h p = Some (Return (p_default_val pp))"
  by (cases k) (simp_all add: get_default_val_body_def)

lemma get_val_leaf_linked:
  assumes "h b = Some bp" and "\<not> is_composite bp" and "p_link bp = Some l"
    and "get_val k h l = Some (Return v)"
  shows "get_val (Suc k) h b =
     Some (if v < p_min bp then Raise (ParameterErr_edge (fullname bp) ''minimum'' (p_min bp))
           else if p_max bp < v then
             Raise (ParameterErr_edge (fullname bp) ''maximum'' (p_max bp))
           else Return v)"
  using assms by (simp add: get_val_body_def)

lemma set_link_None: "set_link n p None = modify p (\<lambda>q. q\<lparr>p_link := None\<rparr>)"
  by (simp add: set_link_def)

text \<open>The three ways a call of the setter of \<open>val\<close> with a number ends. The link is
  cleared in each.\<close>

lemma set_val_Number_cases:
  assumes "heap w p = Some pp"
  shows "set_val n p (Number x) w =
     (if x < p_min pp then
        Some (Raise (ParameterErr_edge (fullname pp) ''minimum'' (p_min pp)),
              w\<lparr>heap := (heap w)(p \<mapsto> pp\<lparr>p_link := None\<rparr>)\<rparr>)
      else if x > p_max pp then
        Some (Raise (ParameterErr_edge (fullname pp) ''maximum'' (p_max pp)),
              w\<lparr>heap := (heap w)(p \<mapsto> pp\<lparr>p_link := None\<rparr>)\<rparr>)
      else Some (Return (),
              w\<lparr>heap := (heap w)(p \<mapsto>
                   pp\<lparr>p_link := None, p_val := x, p_default_val := x\<rparr>)\<rparr>))"
  using assms by (simp add: set_val_def set_link_None cmd_defs)

text \<open>A read of \<open>val\<close> or \<open>default_val\<close> that returns or raises is a read of an object.\<close>

lemma get_val_None: "h p = None \<Longrightarrow> get_val k h p = None"
  by (cases k) (simp_all add: get_val_body_def)

lemma get_default_val_None: "h p = None \<Longrightarrow> get_default_val n k h p = None"
  by (cases k) (simp_all add: get_default_val_body_def)

text \<open>The statement \<open>p.val = v\<close>: on an initialized object the read of \<open>p.val\<close> comes
  first, and the setter runs when it returns. So the statement is the call of the setter
  wherever \<open>p.val\<close> reads, and on every \<open>Parameter\<close> without a link that is not a
  composite. \<open>p.default_val = v\<close> is alike.\<close>

lemma assign_val_cases:
  assumes "heap w p = Some pp"
  shows "assign_val n p v w =
     (if initialized pp then
        (case get_val n (heap w) p of
           None \<Rightarrow> None
         | Some (Raise e) \<Rightarrow> Some (Raise e, w)
         | Some (Return cur) \<Rightarrow> set_val n p v w)
      else set_val n p v w)"
  using assms
  by (simp add: assign_val_def NoNewAttributesAfterInit_setattr_def cmd_defs
        split: option.splits result.splits)

lemma assign_default_val_cases:
  assumes "heap w p = Some pp"
  shows "assign_default_val n p v w =
     (if initialized pp then
        (case get_default_val n n (heap w) p of
           None \<Rightarrow> None
         | Some (Raise e) \<Rightarrow> Some (Raise e, w)
         | Some (Return cur) \<Rightarrow> set_default_val n p v w)
      else set_default_val n p v w)"
  using assms
  by (simp add: assign_default_val_def NoNewAttributesAfterInit_setattr_def cmd_defs
        split: option.splits result.splits)

lemma assign_val_after_read:
  assumes "get_val n (heap w) p = Some (Return cur)"
  shows "assign_val n p v w = set_val n p v w"
proof (cases "heap w p")
  case None
  with assms show ?thesis by (simp add: get_val_None)
next
  case (Some pp)
  with assms show ?thesis by (simp add: assign_val_cases)
qed

lemma assign_val_unlinked:
  assumes "heap w p = Some pp" and "\<not> is_composite pp" and "p_link pp = None"
  shows "assign_val n p v w = set_val n p v w"
  using get_val_leaf_unlinked [where h = "heap w" and p = p, OF assms]
  by (rule assign_val_after_read)

lemma assign_default_val_unlinked:
  assumes "heap w p = Some pp" and "\<not> is_composite pp" and "p_link pp = None"
  shows "assign_default_val n p v w = set_default_val n p v w"
  using assms by (simp add: assign_default_val_cases get_default_val_leaf_unlinked)

text \<open>A statement \<open>p.val = v\<close> that returns is a call of the setter that returns.\<close>

lemma assign_val_Return:
  assumes "assign_val n p v w = Some (Return u, w')"
  shows "set_val n p v w = Some (Return u, w')"
proof (cases "heap w p")
  case None
  with assms show ?thesis
    by (simp add: assign_val_def NoNewAttributesAfterInit_setattr_def cmd_defs)
next
  case (Some pp)
  with assms show ?thesis
    by (auto simp: assign_val_cases split: if_splits option.splits result.splits)
qed

lemma assign_default_val_Return:
  assumes "assign_default_val n p v w = Some (Return u, w')"
  shows "set_default_val n p v w = Some (Return u, w')"
proof (cases "heap w p")
  case None
  with assms show ?thesis
    by (simp add: assign_default_val_def NoNewAttributesAfterInit_setattr_def cmd_defs)
next
  case (Some pp)
  with assms show ?thesis
    by (auto simp: assign_default_val_cases split: if_splits option.splits result.splits)
qed

text \<open>The link setter at an instance, for an object that is not always frozen.\<close>

lemma set_link_Instance:
  assumes "heap w p = Some pp" and "\<not> p_alwaysfrozen pp"
  shows "set_link n p (Some (Instance e)) w =
    (case contains n (heap w) e p of
       None \<Rightarrow> None
     | Some (Raise x) \<Rightarrow> Some (Raise x, w)
     | Some (Return True) \<Rightarrow> Some (Raise ParameterErr_linkcycle, w)
     | Some (Return False) \<Rightarrow>
        (case link_loop n n (heap w) p e False of
           None \<Rightarrow> None
         | Some (Raise x) \<Rightarrow> Some (Raise x, w)
         | Some (Return cycle) \<Rightarrow>
             seq (if cycle then modify e (\<lambda>q. q\<lparr>p_link := None\<rparr>) else ret ())
               (\<lambda>u. modify p (\<lambda>q. q\<lparr>p_link := Some e\<rparr>)) w))"
  using assms
  by (simp add: set_link_def cmd_defs split: option.splits result.splits bool.splits)

text \<open>The block of the limit setter for \<open>min\<close> and for \<open>max\<close>, at an object that is not
  a composite and whose value reads as \<open>cur\<close>.\<close>

lemma auto_repair_min:
  assumes "heap w p = Some pp" and "\<not> is_composite pp"
    and "get_val n (heap w) p = Some (Return cur)"
  shows "auto_repair Lim_min n p x w =
    (if cur < x then
       (if x < p_min pp then
          Some (Raise (ParameterErr_edge (fullname pp) ''minimum'' (p_min pp)),
                w\<lparr>heap := (heap w)(p \<mapsto> pp\<lparr>p_link := None\<rparr>)\<rparr>)
        else if p_max pp < x then
          Some (Raise (ParameterErr_edge (fullname pp) ''maximum'' (p_max pp)),
                w\<lparr>heap := (heap w)(p \<mapsto> pp\<lparr>p_link := None\<rparr>)\<rparr>)
        else
          Some (Return (),
                w\<lparr>heap := (heap w)(p \<mapsto>
                     pp\<lparr>p_link := None, p_val := x, p_default_val := x\<rparr>),
                  warnings := warnings w @ [Less_than_new_minimum (fullname pp) x]\<rparr>))
     else Some (Return (), w))"
proof -
  have c: "\<not> is_composite (pp\<lparr>p_link := None, p_val := x, p_default_val := x\<rparr>)"
    using assms(2) by (simp add: is_composite_def)
  show ?thesis
    using assms c
    by (simp add: auto_repair_def assign_val_after_read set_val_Number_cases cmd_defs
          get_val_leaf_unlinked)
qed

lemma auto_repair_max:
  assumes "heap w p = Some pp" and "\<not> is_composite pp"
    and "get_val n (heap w) p = Some (Return cur)"
  shows "auto_repair Lim_max n p x w =
    (if x < cur then
       (if x < p_min pp then
          Some (Raise (ParameterErr_edge (fullname pp) ''minimum'' (p_min pp)),
                w\<lparr>heap := (heap w)(p \<mapsto> pp\<lparr>p_link := None\<rparr>)\<rparr>)
        else if p_max pp < x then
          Some (Raise (ParameterErr_edge (fullname pp) ''maximum'' (p_max pp)),
                w\<lparr>heap := (heap w)(p \<mapsto> pp\<lparr>p_link := None\<rparr>)\<rparr>)
        else
          Some (Return (),
                w\<lparr>heap := (heap w)(p \<mapsto>
                     pp\<lparr>p_link := None, p_val := x, p_default_val := x\<rparr>),
                  warnings := warnings w @ [Greater_than_new_maximum (fullname pp) x]\<rparr>))
     else Some (Return (), w))"
proof -
  have c: "\<not> is_composite (pp\<lparr>p_link := None, p_val := x, p_default_val := x\<rparr>)"
    using assms(2) by (simp add: is_composite_def)
  show ?thesis
    using assms c
    by (simp add: auto_repair_def assign_val_after_read set_val_Number_cases cmd_defs
          get_val_leaf_unlinked)
qed

lemma auto_repair_default:
  "attr = Lim_default_min \<or> attr = Lim_default_max
   \<Longrightarrow> auto_repair attr n p x w = Some (Return (), w)"
  by (auto simp: auto_repair_def cmd_defs)

lemma set_limit_unfold:
  assumes "heap w p = Some pp"
  shows "set_limit attr n p x w =
    (if x < p_hard_min pp then
       Some (Raise (ParameterErr_edge (fullname pp) ''hard minimum'' (p_hard_min pp)), w)
     else if p_hard_max pp < x then
       Some (Raise (ParameterErr_edge (fullname pp) ''hard maximum'' (p_hard_max pp)), w)
     else seq (if initialized pp then auto_repair attr n p x else ret ())
            (\<lambda>u. setattr attr p x) w)"
  using assms by (simp add: set_limit_def cmd_defs)

subsection \<open>Construction in closed form\<close>

lemma Parameter_init_valid:
  assumes "heap w self = Some (blank c ps)" and "valid_args a"
  shows "Parameter_init n self a w =
     Some (Return (), w\<lparr>heap := (heap w)(self \<mapsto> constructed c ps a)\<rparr>)"
  using assms
  by (simp add: Parameter_init_def NoNewAttributesAfterInit_init_def set_limit_def
        assign_val_def assign_default_val_def NoNewAttributesAfterInit_setattr_def set_val_def
        set_default_val_def setattr_def with_limit_def set_link_None cmd_defs blank_def
        valid_args_def constructed_def)

lemma Parameter_init_invalid:
  assumes "heap w self = Some (blank c ps)" and "\<not> valid_args a"
  shows "\<exists>e w'. Parameter_init n self a w = Some (Raise e, w')"
  using assms
  by (auto simp add: Parameter_init_def NoNewAttributesAfterInit_init_def set_limit_def
        assign_val_def assign_default_val_def NoNewAttributesAfterInit_setattr_def
        set_val_def set_default_val_def setattr_def with_limit_def set_link_None cmd_defs
        blank_def valid_args_def)

lemma hugeval_pos: "0 < hugeval"
  by (simp add: hugeval_def)

lemma valid_default_args:
  "valid_args (default_args m nm v) \<longleftrightarrow> \<not> v < - hugeval \<and> \<not> hugeval < v"
  by (simp add: valid_args_def default_args_def hugeval_def)

lemma CompositeParameter_init_blank:
  assumes "heap w self = Some (blank c ps)"
  shows "CompositeParameter_init n self nm w =
     Some (Return (), w\<lparr>heap := (heap w)(self \<mapsto> composite_object c ps nm)\<rparr>)"
proof -
  have v: "valid_args (default_args [] nm (Num 0))"
    by (simp add: valid_default_args hugeval_def)
  show ?thesis
    by (simp add: CompositeParameter_init_def seq_def Parameter_init_valid [OF assms v]
          modify_def composite_object_def)
qed

lemma Parameter_new_valid:
  assumes "valid_args a"
  shows "Parameter_new n a w =
     Some (Return (next_addr w),
       w\<lparr>heap := (heap w)(next_addr w \<mapsto> constructed Parameter [] a),
         next_addr := Suc (next_addr w)\<rparr>)"
  by (simp add: Parameter_new_def seq_def new_object_def ret_def
        Parameter_init_valid [OF _ assms])

lemma Parameter_new_invalid:
  assumes "\<not> valid_args a"
  shows "\<exists>e w'. Parameter_new n a w = Some (Raise e, w')"
proof -
  let ?w = "w\<lparr>heap := (heap w)(next_addr w \<mapsto> blank Parameter []),
                next_addr := Suc (next_addr w)\<rparr>"
  have "heap ?w (next_addr w) = Some (blank Parameter [])" by simp
  from Parameter_init_invalid [OF this assms]
  obtain e w' where "Parameter_init n (next_addr w) a ?w = Some (Raise e, w')" by blast
  then show ?thesis
    by (simp add: Parameter_new_def seq_def new_object_def)
qed

lemma ConstantParameter_new_eq:
  "ConstantParameter_new n txt v w =
     Some (Return (next_addr w),
       w\<lparr>heap := (heap w)(next_addr w \<mapsto> composite_object (ConstantParameter v) [] txt),
         next_addr := Suc (next_addr w)\<rparr>)"
  by (simp add: ConstantParameter_new_def seq_def new_object_def ret_def
        CompositeParameter_init_blank)

lemma UnaryOpParameter_new_eq:
  assumes "heap w x = Some xp"
  shows "UnaryOpParameter_new n x op opstr w =
     Some (Return (next_addr w),
       w\<lparr>heap := (heap w)(next_addr w \<mapsto>
            composite_object (UnaryOpParameter op x) [x] (opstr @ ''('' @ fullname xp @ '')'')),
         next_addr := Suc (next_addr w)\<rparr>)"
  using assms
  by (simp add: UnaryOpParameter_new_def seq_def obj_def new_object_def ret_def
        CompositeParameter_init_blank)

lemma BinaryOpParameter_new_eq:
  assumes "wrapobj n lhs w = Some (Return l, w1)" and "wrapobj n rhs w1 = Some (Return r, w2)"
    and "heap w2 l = Some lp" and "heap w2 r = Some rp"
  shows "BinaryOpParameter_new n lhs rhs op opstr w =
     Some (Return (next_addr w2),
       w2\<lparr>heap := (heap w2)(next_addr w2 \<mapsto>
            composite_object (BinaryOpParameter op l r) [l, r]
              (''('' @ fullname lp @ '' '' @ opstr @ '' '' @ fullname rp @ '')'')),
         next_addr := Suc (next_addr w2)\<rparr>)"
  using assms
  by (simp add: BinaryOpParameter_new_def seq_def obj_def new_object_def ret_def
        CompositeParameter_init_blank)

lemma wrapobj_Operand: "wrapobj n (Operand a) w = Some (Return a, w)"
  by (simp add: wrapobj_def ret_def)

lemma wrapobj_Literal:
  "wrapobj n (Literal txt v) w =
     Some (Return (next_addr w),
       w\<lparr>heap := (heap w)(next_addr w \<mapsto> composite_object (ConstantParameter v) [] txt),
         next_addr := Suc (next_addr w)\<rparr>)"
  by (simp add: wrapobj_def ConstantParameter_new_eq)

lemma constructed_simps:
  "cls (constructed c ps a) = c"
  "parts (constructed c ps a) = ps"
  "fullname (constructed c ps a) = i_modelname a @ ''.'' @ i_name a"
  "p_hard_min (constructed c ps a) = i_hard_min a"
  "p_hard_max (constructed c ps a) = i_hard_max a"
  "p_alwaysfrozen (constructed c ps a) = i_alwaysfrozen a"
  "p_min (constructed c ps a) = i_min a"
  "p_max (constructed c ps a) = i_max a"
  "p_val (constructed c ps a) = i_val a"
  "p_default_min (constructed c ps a) = i_min a"
  "p_default_max (constructed c ps a) = i_max a"
  "p_default_val (constructed c ps a) = i_val a"
  "p_link (constructed c ps a) = None"
  "p_guessed (constructed c ps a) = False"
  "initialized (constructed c ps a) = True"
  by (simp_all add: constructed_def)

lemma composite_object_simps:
  "cls (composite_object c ps nm) = c"
  "parts (composite_object c ps nm) = ps"
  "fullname (composite_object c ps nm) = nm"
  "p_hard_min (composite_object c ps nm) = - hugeval"
  "p_hard_max (composite_object c ps nm) = hugeval"
  "p_alwaysfrozen (composite_object c ps nm) = False"
  "p_min (composite_object c ps nm) = - hugeval"
  "p_max (composite_object c ps nm) = hugeval"
  "p_val (composite_object c ps nm) = 0"
  "p_default_min (composite_object c ps nm) = - hugeval"
  "p_default_max (composite_object c ps nm) = hugeval"
  "p_default_val (composite_object c ps nm) = 0"
  "p_link (composite_object c ps nm) = None"
  "p_guessed (composite_object c ps nm) = False"
  "initialized (composite_object c ps nm) = True"
  by (simp_all add: composite_object_def constructed_def default_args_def)

lemma args_simps:
  "i_modelname (default_args m nm v) = m"
  "i_name (default_args m nm v) = nm"
  "i_val (default_args m nm v) = v"
  "i_min (default_args m nm v) = - hugeval"
  "i_max (default_args m nm v) = hugeval"
  "i_hard_min (default_args m nm v) = - hugeval"
  "i_hard_max (default_args m nm v) = hugeval"
  "i_alwaysfrozen (default_args m nm v) = False"
  "i_modelname (soft_args m nm v lo hi) = m"
  "i_name (soft_args m nm v lo hi) = nm"
  "i_val (soft_args m nm v lo hi) = v"
  "i_min (soft_args m nm v lo hi) = lo"
  "i_max (soft_args m nm v lo hi) = hi"
  "i_hard_min (soft_args m nm v lo hi) = - hugeval"
  "i_hard_max (soft_args m nm v lo hi) = hugeval"
  "i_alwaysfrozen (soft_args m nm v lo hi) = False"
  by (simp_all add: default_args_def soft_args_def)

lemma valid_soft_args:
  "valid_args (soft_args m nm v lo hi) \<longleftrightarrow>
     \<not> lo < - hugeval \<and> \<not> hugeval < lo \<and> \<not> hi < - hugeval \<and> \<not> hugeval < hi
     \<and> \<not> v < lo \<and> \<not> hi < v"
  by (simp add: valid_args_def args_simps)

text \<open>The rules that run a program on concrete objects.\<close>

lemmas run_simps = cmd_defs discard_def outcome_def after_def world_after_def empty_world_def
  Parameter_new_valid valid_default_args valid_soft_args hugeval_def
  wrapobj_Operand wrapobj_Literal BinaryOpParameter_new_eq UnaryOpParameter_new_eq
  constructed_simps composite_object_simps args_simps
  is_composite_def get_parts_body_def iter_def contains_def eval_body_def get_val_body_def
  get_default_val_body_def link_loop_body_def set_link_def set_val_def set_default_val_def
  assign_val_def assign_default_val_def NoNewAttributesAfterInit_setattr_def
  setattr_def with_limit_def auto_repair_def set_limit_def set_frozen_def freeze_def thaw_def unlink_def
  reset_def

subsection \<open>Commands that keep a property of every object, and effects of setters\<close>

lemma keeps_ret: "keeps P (ret x)"
  by (simp add: keeps_def ret_def)

lemma keeps_raise: "keeps P (raise e)"
  by (simp add: keeps_def raise_def)

lemma keeps_seq:
  assumes "keeps P m" and "\<And>x. keeps P (f x)"
  shows "keeps P (seq m f)"
  unfolding keeps_def
proof (intro allI impI)
  fix w r w'
  assume p: "P w" and s: "seq m f w = Some (r, w')"
  show "P w'"
  proof (cases "m w")
    case None
    with s show ?thesis by (simp add: seq_def)
  next
    case (Some a)
    obtain r1 w1 where a: "a = (r1, w1)" by (cases a)
    have p1: "P w1"
      using assms(1) p Some a by (auto simp: keeps_def)
    show ?thesis
    proof (cases r1)
      case (Raise e)
      with s Some a p1 show ?thesis by (simp add: seq_def)
    next
      case (Return x)
      with s Some a have "f x w1 = Some (r, w')" by (simp add: seq_def)
      with assms(2) [of x] p1 show ?thesis by (auto simp: keeps_def)
    qed
  qed
qed

lemma keeps_reading: "keeps P (reading f)"
  by (auto simp: keeps_def reading_def split: option.splits)

lemma keeps_obj: "keeps P (obj a)"
  by (auto simp: keeps_def obj_def split: option.splits)

lemma keeps_warn: "keeps (every_object J) (warn x)"
  by (simp add: keeps_def warn_def every_object_def)

lemma keeps_modify:
  assumes "\<And>p. J p \<Longrightarrow> J (f p)"
  shows "keeps (every_object J) (modify a f)"
  using assms by (auto simp: keeps_def modify_def every_object_def split: option.splits)

lemma keeps_if: "keeps P m1 \<Longrightarrow> keeps P m2 \<Longrightarrow> keeps P (if b then m1 else m2)"
  by simp

lemma keeps_when_given:
  assumes "\<And>x. arg = Some x \<Longrightarrow> keeps P (act x)"
  shows "keeps P (when_given arg cond self act)"
  using assms
  by (cases arg) (auto simp: when_given_def intro!: keeps_ret keeps_seq keeps_obj)

lemma keeps_setattr:
  assumes "keeps P store"
  shows "keeps P (NoNewAttributesAfterInit_setattr self getter store)"
  using assms
  by (auto simp: NoNewAttributesAfterInit_setattr_def intro!: keeps_seq keeps_obj keeps_reading)

lemma keepsD: "keeps P m \<Longrightarrow> P w \<Longrightarrow> m w = Some (r, w') \<Longrightarrow> P w'"
  by (auto simp: keeps_def)

lemma every_object_update:
  assumes "every_object J w" and "heap w' = (heap w)(p \<mapsto> pp')" and "J pp'"
  shows "every_object J w'"
  using assms by (auto simp: every_object_def)

lemma every_objectD: "every_object J w \<Longrightarrow> heap w p = Some pp \<Longrightarrow> J pp"
  by (auto simp: every_object_def)

lemma discard_Return:
  "discard m w = Some (Return u, w') \<Longrightarrow> \<exists>x. m w = Some (Return x, w')"
  by (auto simp: discard_def seq_def ret_def split: option.splits result.splits)

text \<open>The three ways a call of the setter of \<open>default_val\<close> with a number ends.\<close>

lemma set_default_val_Number_cases:
  assumes "heap w p = Some pp"
  shows "set_default_val n p (Number x) w =
     (if x < p_min pp then
        Some (Raise (ParameterErr_edge (fullname pp) ''minimum'' (p_min pp)),
              w\<lparr>heap := (heap w)(p \<mapsto> pp\<lparr>p_link := None\<rparr>)\<rparr>)
      else if x > p_max pp then
        Some (Raise (ParameterErr_edge (fullname pp) ''maximum'' (p_max pp)),
              w\<lparr>heap := (heap w)(p \<mapsto> pp\<lparr>p_link := None\<rparr>)\<rparr>)
      else Some (Return (),
              w\<lparr>heap := (heap w)(p \<mapsto> pp\<lparr>p_link := None, p_default_val := x\<rparr>)\<rparr>))"
  using assms by (simp add: set_default_val_def set_link_None cmd_defs)

lemma setter_None:
  assumes "heap w p = None"
  shows "set_val n p (Number x) w = None" and "set_default_val n p (Number x) w = None"
    and "set_limit attr n p x w = None"
    and "assign_val n p v w = None" and "assign_default_val n p v w = None"
  using assms
  by (simp_all add: set_val_def set_default_val_def set_limit_def set_link_None cmd_defs
        assign_val_def assign_default_val_def NoNewAttributesAfterInit_setattr_def)

text \<open>The ways a statement \<open>p.val = x\<close> or \<open>p.default_val = x\<close> with a number ends: the
  read raised and nothing changed, the check of the setter raised and the link is cleared,
  or the number is stored.\<close>

lemma assign_val_effect:
  assumes "assign_val n p (Number x) w = Some (r, w')" and "heap w p = Some pp"
  shows "(\<exists>e. r = Raise e) \<and> w' = w
       \<or> (\<exists>e. r = Raise e) \<and> w' = w\<lparr>heap := (heap w)(p \<mapsto> pp\<lparr>p_link := None\<rparr>)\<rparr>
       \<or> r = Return () \<and> \<not> x < p_min pp \<and> \<not> p_max pp < x
           \<and> w' = w\<lparr>heap := (heap w)(p \<mapsto>
                  pp\<lparr>p_link := None, p_val := x, p_default_val := x\<rparr>)\<rparr>"
  using assms
  by (auto simp: assign_val_cases set_val_Number_cases
        split: if_splits option.splits result.splits)

lemma assign_default_val_effect:
  assumes "assign_default_val n p (Number x) w = Some (r, w')" and "heap w p = Some pp"
  shows "(\<exists>e. r = Raise e) \<and> w' = w
       \<or> (\<exists>e. r = Raise e) \<and> w' = w\<lparr>heap := (heap w)(p \<mapsto> pp\<lparr>p_link := None\<rparr>)\<rparr>
       \<or> r = Return () \<and> \<not> x < p_min pp \<and> \<not> p_max pp < x
           \<and> w' = w\<lparr>heap := (heap w)(p \<mapsto> pp\<lparr>p_link := None, p_default_val := x\<rparr>)\<rparr>"
  using assms
  by (auto simp: assign_default_val_cases set_default_val_Number_cases
        split: if_splits option.splits result.splits)

lemma seq_reading_cases:
  assumes "seq (reading f) g w = Some (r, w')"
  obtains (same) "w' = w" | (went) v where "g v w = Some (r, w')"
  using assms by (auto simp: seq_def reading_def split: option.splits result.splits)

lemma seq_ret_end: "seq m ret = m"
  by (rule ext) (auto simp: seq_def ret_def split: option.splits result.splits)

lemma seq_ret_start: "seq (ret y) f = f y"
  by (rule ext) (simp add: seq_def ret_def)

text \<open>What the block of the limit setter can do to the store, on any object.\<close>

lemma auto_repair_effect:
  assumes "auto_repair attr n p x w = Some (r, w')" and "heap w p = Some pp"
  shows "heap w' = heap w
       \<or> heap w' = (heap w)(p \<mapsto> pp\<lparr>p_link := None\<rparr>)
       \<or> heap w' = (heap w)(p \<mapsto> pp\<lparr>p_link := None, p_val := x, p_default_val := x\<rparr>)
           \<and> \<not> x < p_min pp \<and> \<not> p_max pp < x"
proof -
  have v: "heap w2 = heap w
       \<or> heap w2 = (heap w)(p \<mapsto> pp\<lparr>p_link := None\<rparr>)
       \<or> heap w2 = (heap w)(p \<mapsto> pp\<lparr>p_link := None, p_val := x, p_default_val := x\<rparr>)
           \<and> \<not> x < p_min pp \<and> \<not> p_max pp < x"
    if "seq (assign_val n p (Number x)) (\<lambda>u.
          seq (obj p) (\<lambda>sp. seq (reading (\<lambda>h. get_val n h p)) (\<lambda>now. warn (wn sp now)))) w
        = Some (r2, w2)" for wn r2 w2
  proof -
    from that obtain r1 w1 where a: "assign_val n p (Number x) w = Some (r1, w1)"
      by (auto simp: seq_def split: option.splits)
    have "heap w2 = heap w1"
      using that a
      by (cases r1) (auto simp: seq_def obj_def reading_def warn_def
            split: option.splits result.splits)
    with assign_val_effect [OF a assms(2)] show ?thesis by auto
  qed
  have c: "heap w2 = heap w
       \<or> heap w2 = (heap w)(p \<mapsto> pp\<lparr>p_link := None\<rparr>)
       \<or> heap w2 = (heap w)(p \<mapsto> pp\<lparr>p_link := None, p_val := x, p_default_val := x\<rparr>)
           \<and> \<not> x < p_min pp \<and> \<not> p_max pp < x"
    if "seq (reading (\<lambda>h. get_val n h p)) (\<lambda>cur. if fires cur then
          seq (assign_val n p (Number x)) (\<lambda>u.
          seq (obj p) (\<lambda>sp. seq (reading (\<lambda>h. get_val n h p)) (\<lambda>now. warn (wn sp now))))
          else ret ()) w = Some (r2, w2)" for fires wn r2 w2
    using that
  proof (cases rule: seq_reading_cases)
    case same
    then show ?thesis by simp
  next
    case (went v)
    then show ?thesis
      using v [of wn r2 w2] by (cases "fires v") (auto simp: ret_def)
  qed
  show ?thesis
  proof (cases attr)
    case Lim_min
    with assms(1) have
      "seq (reading (\<lambda>h. get_val n h p)) (\<lambda>cur. if cur < x then
          seq (assign_val n p (Number x)) (\<lambda>u.
          seq (obj p) (\<lambda>sp. seq (reading (\<lambda>h. get_val n h p))
            (\<lambda>now. warn (Less_than_new_minimum (fullname sp) now))))
          else ret ()) w = Some (r, w')"
      by (simp add: auto_repair_def seq_ret_end)
    then show ?thesis by (rule c)
  next
    case Lim_max
    with assms(1) have
      "seq (reading (\<lambda>h. get_val n h p)) (\<lambda>cur. if x < cur then
          seq (assign_val n p (Number x)) (\<lambda>u.
          seq (obj p) (\<lambda>sp. seq (reading (\<lambda>h. get_val n h p))
            (\<lambda>now. warn (Greater_than_new_maximum (fullname sp) now))))
          else ret ()) w = Some (r, w')"
      by (simp add: auto_repair_def seq_ret_start)
    then show ?thesis by (rule c)
  next
    case Lim_default_min
    with assms(1) show ?thesis by (simp add: auto_repair_default)
  next
    case Lim_default_max
    with assms(1) show ?thesis by (simp add: auto_repair_default)
  qed
qed

subsection \<open>C1: reset after an assignment\<close>

text \<open>
  C1, as the code has it. The setter of \<open>val\<close> stores a number in \<open>_val\<close> and in
  \<open>_default_val\<close>, so the assignment moves the default too: for a \<open>Parameter\<close> \<open>p\<close>
  that is not a composite, after a successful \<open>p.val = x\<close> the call \<open>p.reset()\<close> returns
  and \<open>p.val\<close> reads \<open>x\<close>, the assigned value, whatever the default was when \<open>p\<close> was
  constructed. The hypothesis is the call of the setter: a statement \<open>p.val = x\<close> that
  returns is that call, with the same result (lemma \<open>assign_val_Return\<close>).
\<close>

theorem reset_keeps_assigned_value:
  assumes "heap w p = Some pp" and "\<not> is_composite pp"
    and "set_val n p (Number x) w = Some (Return (), w1)"
  shows "outcome (reset n p) w1 = Some (Return ())
       \<and> get_val k (heap (after (reset n p) w1)) p = Some (Return x)"
proof -
  let ?q = "pp\<lparr>p_link := None, p_val := x, p_default_val := x\<rparr>"
  from assms have w1: "w1 = w\<lparr>heap := (heap w)(p \<mapsto> ?q)\<rparr>"
    by (simp add: set_val_Number_cases split: if_splits)
  have c: "\<not> is_composite ?q"
    using assms(2) by (simp add: is_composite_def)
  show ?thesis
    using c
    by (simp add: w1 reset_def cmd_defs outcome_def after_def get_default_val_leaf_unlinked
          get_val_leaf_unlinked is_composite_def)
qed

text \<open>At \<open>p = Parameter("m", "p", 2); p.val = 7\<close>.\<close>

theorem reset_keeps_assigned_value_witness:
  "outcome (reset 0 0) (world_after 0 [New (default_args ''m'' ''p'' 2), Assign_val 0 (Number 7)])
     = Some (Return ())
   \<and> get_val 0 (heap (after (reset 0 0)
        (world_after 0 [New (default_args ''m'' ''p'' 2), Assign_val 0 (Number 7)]))) 0
     = Some (Return 7)"
proof (rule reset_keeps_assigned_value
    [where w = "world_after 0 [New (default_args ''m'' ''p'' 2)]"
       and pp = "constructed Parameter [] (default_args ''m'' ''p'' 2)" and n = 0])
  show "heap (world_after 0 [New (default_args ''m'' ''p'' 2)]) 0 =
    Some (constructed Parameter [] (default_args ''m'' ''p'' 2))"
    by (simp add: run_simps)
  show "\<not> is_composite (constructed Parameter [] (default_args ''m'' ''p'' 2))"
    by (simp add: run_simps)
  show "set_val 0 0 (Number 7) (world_after 0 [New (default_args ''m'' ''p'' 2)]) =
    Some (Return (), world_after 0 [New (default_args ''m'' ''p'' 2), Assign_val 0 (Number 7)])"
    by (simp add: run_simps)
qed

text \<open>The claim as stated fails: the default at construction is \<open>2\<close>, and after
  \<open>p.val = 7; p.reset()\<close> the value is \<open>7\<close>, not \<open>2\<close>.\<close>

theorem reset_round_trip_counterexample:
  "map_option p_default_val (heap (world_after 0 [New (default_args ''m'' ''p'' 2)]) 0) = Some 2
   \<and> outcome (run 0 reset_program) empty_world = Some (Return ())
   \<and> get_val 0 (heap (world_after 0 reset_program)) 0 = Some (Return 7)
   \<and> get_val 0 (heap (world_after 0 reset_program)) 0 \<noteq> Some (Return 2)"
  by (simp add: reset_program_def run_simps)

subsection \<open>C2: a failed assignment to val\<close>

text \<open>
  C2, as the code has it. On an initialized object the statement \<open>p.val = x\<close> first reads
  \<open>p.val\<close>, and the setter then clears the link before it validates the number. So when
  \<open>p.val = x\<close> raises for a number \<open>x\<close>, one of two things has happened. Either the read
  of \<open>p.val\<close> raised the error (a link whose value reads outside \<open>[p.min, p.max]\<close>, or
  whose evaluation fails), and the state is unchanged, the link included. Or the read
  returned, the error is the \<open>ParameterErr\<close> for the minimum or the maximum of \<open>p\<close>, and
  the state afterwards is the state before with \<open>p.link\<close> set to \<open>None\<close>: every other
  attribute of \<open>p\<close>, every other object and the warnings are unchanged, and the whole state
  is unchanged exactly when \<open>p\<close> had no link.
\<close>

theorem failed_assignment_effect:
  assumes "heap w p = Some pp"
    and "assign_val n p (Number x) w = Some (Raise e, w')"
  shows "(initialized pp \<and> get_val n (heap w) p = Some (Raise e) \<and> w' = w)
       \<or> ((initialized pp \<longrightarrow> (\<exists>cur. get_val n (heap w) p = Some (Return cur)))
          \<and> w' = w\<lparr>heap := (heap w)(p \<mapsto> pp\<lparr>p_link := None\<rparr>)\<rparr>
          \<and> (e = ParameterErr_edge (fullname pp) ''minimum'' (p_min pp) \<and> x < p_min pp
             \<or> e = ParameterErr_edge (fullname pp) ''maximum'' (p_max pp)
                 \<and> \<not> x < p_min pp \<and> p_max pp < x)
          \<and> (w' = w \<longleftrightarrow> p_link pp = None))"
proof -
  let ?w1 = "w\<lparr>heap := (heap w)(p \<mapsto> pp\<lparr>p_link := None\<rparr>)\<rparr>"
  have same: "?w1 = w \<longleftrightarrow> p_link pp = None"
  proof
    assume "?w1 = w"
    then have "heap ?w1 p = heap w p" by simp
    then have "pp\<lparr>p_link := None\<rparr> = pp" using assms(1) by simp
    then have "p_link (pp\<lparr>p_link := None\<rparr>) = p_link pp" by simp
    then show "p_link pp = None" by simp
  next
    assume "p_link pp = None"
    then have "pp\<lparr>p_link := None\<rparr> = pp" by simp
    then have "(heap w)(p \<mapsto> pp\<lparr>p_link := None\<rparr>) = heap w"
      using assms(1) by (simp add: fun_upd_idem)
    then show "?w1 = w" by simp
  qed
  have setter: "w' = ?w1
       \<and> (e = ParameterErr_edge (fullname pp) ''minimum'' (p_min pp) \<and> x < p_min pp
          \<or> e = ParameterErr_edge (fullname pp) ''maximum'' (p_max pp)
              \<and> \<not> x < p_min pp \<and> p_max pp < x)"
    if "set_val n p (Number x) w = Some (Raise e, w')"
    using that assms(1) by (auto simp: set_val_Number_cases split: if_splits)
  show ?thesis
  proof (cases "initialized pp")
    case False
    with assms have "set_val n p (Number x) w = Some (Raise e, w')"
      by (simp add: assign_val_cases)
    from setter [OF this] same False show ?thesis by simp
  next
    case True
    show ?thesis
    proof (cases "get_val n (heap w) p")
      case None
      with assms True show ?thesis by (simp add: assign_val_cases)
    next
      case (Some r)
      show ?thesis
      proof (cases r)
        case (Raise e')
        with assms True Some show ?thesis by (simp add: assign_val_cases)
      next
        case (Return cur)
        with assms True Some have "set_val n p (Number x) w = Some (Raise e, w')"
          by (simp add: assign_val_cases)
        from setter [OF this] same Some Return show ?thesis by simp
      qed
    qed
  qed
qed

text \<open>At \<open>p.val = 100\<close> for the linked \<open>p\<close> of \<open>linked_program\<close>, whose link reads \<open>2\<close>
  and whose maximum is \<open>10\<close>: the setter raises, and the link is gone. And at
  \<open>b.val = 5\<close> for the \<open>b\<close> of \<open>edge_program\<close> after \<open>a.val = -15\<close>, where the link
  \<open>10 - a\<close> is worth \<open>25\<close> and the maximum of \<open>b\<close> is \<open>20\<close>: the read raises, and nothing
  changes.\<close>

theorem failed_assignment_effect_witness:
  "get_val (Suc 0) (heap (world_after 0 linked_program)) 0 = Some (Return 2)
   \<and> after (assign_val (Suc 0) 0 (Number 100)) (world_after 0 linked_program) =
       (world_after 0 linked_program)\<lparr>heap := (heap (world_after 0 linked_program))
          (0 \<mapsto> constructed Parameter [] (soft_args ''m'' ''p'' 5 0 10))\<rparr>
   \<and> after (assign_val (Suc 0) 0 (Number 100)) (world_after 0 linked_program)
       \<noteq> world_after 0 linked_program
   \<and> outcome (assign_val (Suc (Suc 0)) 1 (Number 5))
         (world_after 1 (edge_program @ [Assign_val 0 (Number (- 15))]))
       = Some (Raise (ParameterErr_edge ''m.b'' ''maximum'' 20))
   \<and> get_val (Suc (Suc 0)) (heap (world_after 1 (edge_program @ [Assign_val 0 (Number (- 15))]))) 1
       = Some (Raise (ParameterErr_edge ''m.b'' ''maximum'' 20))
   \<and> after (assign_val (Suc (Suc 0)) 1 (Number 5))
         (world_after 1 (edge_program @ [Assign_val 0 (Number (- 15))]))
       = world_after 1 (edge_program @ [Assign_val 0 (Number (- 15))])"
proof -
  let ?w = "world_after 0 linked_program"
  let ?pp = "(constructed Parameter [] (soft_args ''m'' ''p'' 5 0 10))\<lparr>p_link := Some 1\<rparr>"
  let ?w' = "after (assign_val (Suc 0) 0 (Number 100)) ?w"
  have a: "heap ?w 0 = Some ?pp"
    by (simp add: linked_program_def run_simps)
  have g: "get_val (Suc 0) (heap ?w) 0 = Some (Return 2)"
    by (simp add: linked_program_def run_simps)
  have b: "assign_val (Suc 0) 0 (Number 100) ?w =
      Some (Raise (ParameterErr_edge ''m.p'' ''maximum'' 10), ?w')"
    using a g
    by (simp add: assign_val_after_read set_val_Number_cases after_def constructed_simps
          args_simps)
  have l: "p_link ?pp \<noteq> None"
    by simp
  from failed_assignment_effect [OF a b] g l
  have c: "?w' = ?w\<lparr>heap := (heap ?w)(0 \<mapsto> ?pp\<lparr>p_link := None\<rparr>)\<rparr>" and d: "?w' \<noteq> ?w"
    by auto
  have e: "?pp\<lparr>p_link := None\<rparr> = constructed Parameter [] (soft_args ''m'' ''p'' 5 0 10)"
    by (simp add: constructed_def)
  let ?v = "world_after 1 (edge_program @ [Assign_val 0 (Number (- 15))])"
  let ?bp = "(constructed Parameter [] (soft_args ''m'' ''b'' 1 0 20))\<lparr>p_link := Some 3\<rparr>"
  let ?v' = "after (assign_val (Suc (Suc 0)) 1 (Number 5)) ?v"
  have a2: "heap ?v 1 = Some ?bp"
    by (simp add: edge_program_def run_simps)
  have g2: "get_val (Suc (Suc 0)) (heap ?v) 1 = Some (Raise (ParameterErr_edge ''m.b'' ''maximum'' 20))"
    by (simp add: edge_program_def run_simps np_subtract_def)
  have i2: "initialized ?bp"
    by (simp add: constructed_simps)
  have b2: "assign_val (Suc (Suc 0)) 1 (Number 5) ?v =
      Some (Raise (ParameterErr_edge ''m.b'' ''maximum'' 20), ?v')"
    using g2 i2 assign_val_cases [OF a2, of "Suc (Suc 0)" "Number 5"] by (simp add: after_def)
  from failed_assignment_effect [OF a2 b2] g2
  have c2: "?v' = ?v"
    by auto
  have o2: "outcome (assign_val (Suc (Suc 0)) 1 (Number 5)) ?v
      = Some (Raise (ParameterErr_edge ''m.b'' ''maximum'' 20))"
    using b2 by (simp add: outcome_def)
  from g c d e o2 g2 c2 show ?thesis by simp
qed

text \<open>The claim as stated fails: \<open>p\<close> is linked to \<open>q\<close>, whose value \<open>2\<close> lies within the
  limits of \<open>p\<close>; the assignment \<open>p.val = 100\<close> raises, and \<open>p.link\<close> is \<open>None\<close>
  afterwards.\<close>

theorem failed_assignment_counterexample:
  "map_option p_link (heap (world_after 0 linked_program) 0) = Some (Some 1)
   \<and> outcome (assign_val 1 0 (Number 100)) (world_after 0 linked_program)
       = Some (Raise (ParameterErr_edge ''m.p'' ''maximum'' 10))
   \<and> map_option p_link (heap (after (assign_val 1 0 (Number 100)) (world_after 0 linked_program)) 0)
       = Some None"
  by (simp add: linked_program_def run_simps)

subsection \<open>C3: the defaults and the hard limits\<close>

lemmas whl_defs = within_hard_limits_def defaults_within_hard_limits_def
  limits_within_hard_limits_def

lemma whl_link: "within_hard_limits (p\<lparr>p_link := l\<rparr>) = within_hard_limits p"
  by (simp add: whl_defs)

lemma whl_assigned:
  assumes "within_hard_limits p" and "is_number x" and "\<not> x < p_min p" and "\<not> p_max p < x"
  shows "within_hard_limits (p\<lparr>p_link := None, p_val := x, p_default_val := x\<rparr>)"
    and "within_hard_limits (p\<lparr>p_link := None, p_default_val := x\<rparr>)"
proof -
  from assms(1) have "p_hard_min p \<le> p_min p" and "p_max p \<le> p_hard_max p"
    by (simp_all add: whl_defs)
  from passes_within [OF this assms(2-4)] assms(1)
  show "within_hard_limits (p\<lparr>p_link := None, p_val := x, p_default_val := x\<rparr>)"
    and "within_hard_limits (p\<lparr>p_link := None, p_default_val := x\<rparr>)"
    by (simp_all add: whl_defs)
qed

lemma whl_with_limit:
  assumes "within_hard_limits p" and "is_number x"
    and "\<not> x < p_hard_min p" and "\<not> p_hard_max p < x"
  shows "within_hard_limits (with_limit attr x p)"
proof -
  from assms(1) have "is_number (p_hard_min p)" and "is_number (p_hard_max p)"
    by (auto simp: whl_defs dest: less_eq_is_number)
  from passes_between [OF assms(2) this assms(3,4)] assms(1)
  show ?thesis
    by (cases attr) (simp_all add: whl_defs with_limit_def)
qed

text \<open>What a limit setter can do to the store, on any object: the block may have cleared
  the link or assigned the value, and the limit is stored unless the setter raised.\<close>

lemma set_limit_effect:
  assumes "set_limit attr n p x w = Some (r, w')" and "heap w p = Some pp"
  shows "\<exists>pp1. (pp1 = pp \<or> pp1 = pp\<lparr>p_link := None\<rparr>
            \<or> pp1 = pp\<lparr>p_link := None, p_val := x, p_default_val := x\<rparr>
                \<and> \<not> x < p_min pp \<and> \<not> p_max pp < x)
         \<and> (heap w' = (heap w)(p \<mapsto> pp1)
            \<or> heap w' = (heap w)(p \<mapsto> with_limit attr x pp1)
                \<and> \<not> x < p_hard_min pp \<and> \<not> p_hard_max pp < x)"
proof (cases "x < p_hard_min pp \<or> p_hard_max pp < x")
  case True
  with assms have "heap w' = heap w"
    by (auto simp: set_limit_unfold split: if_splits)
  then have "heap w' = (heap w)(p \<mapsto> pp)"
    using assms(2) by (simp add: fun_upd_idem)
  then show ?thesis by blast
next
  case False
  with assms have s: "seq (if initialized pp then auto_repair attr n p x else ret ())
      (\<lambda>u. setattr attr p x) w = Some (r, w')"
    by (simp add: set_limit_unfold)
  then obtain r1 w1 where
    m: "(if initialized pp then auto_repair attr n p x else ret ()) w = Some (r1, w1)"
    by (auto simp: seq_def split: option.splits)
  have e: "heap w1 = heap w
       \<or> heap w1 = (heap w)(p \<mapsto> pp\<lparr>p_link := None\<rparr>)
       \<or> heap w1 = (heap w)(p \<mapsto> pp\<lparr>p_link := None, p_val := x, p_default_val := x\<rparr>)
           \<and> \<not> x < p_min pp \<and> \<not> p_max pp < x"
  proof (cases "initialized pp")
    case True
    with m have "auto_repair attr n p x w = Some (r1, w1)" by simp
    then show ?thesis using assms(2) by (rule auto_repair_effect)
  next
    case False
    with m show ?thesis by (simp add: ret_def)
  qed
  moreover have "heap w1 = heap w \<Longrightarrow> heap w1 = (heap w)(p \<mapsto> pp)"
    using assms(2) by (simp add: fun_upd_idem)
  ultimately obtain pp1 where h1: "heap w1 = (heap w)(p \<mapsto> pp1)"
    and c1: "pp1 = pp \<or> pp1 = pp\<lparr>p_link := None\<rparr>
            \<or> pp1 = pp\<lparr>p_link := None, p_val := x, p_default_val := x\<rparr>
                \<and> \<not> x < p_min pp \<and> \<not> p_max pp < x"
    by blast
  have "heap w' = heap w1 \<or> heap w' = (heap w1)(p \<mapsto> with_limit attr x pp1)"
    using s m h1
    by (cases r1) (auto simp: seq_def setattr_def modify_def)
  then have "heap w' = (heap w)(p \<mapsto> pp1)
       \<or> heap w' = (heap w)(p \<mapsto> with_limit attr x pp1)
           \<and> \<not> x < p_hard_min pp \<and> \<not> p_hard_max pp < x"
    using h1 False by auto
  with c1 show ?thesis by blast
qed

text \<open>Every operation on existing objects whose numeric arguments are numbers keeps all
  limits and defaults of all objects within their hard limits, however it ends.\<close>

lemma keeps_set_link_whl: "keeps (every_object within_hard_limits) (set_link n p l)"
  by (auto simp: set_link_def whl_link split: option.splits pyval.splits
        intro!: keeps_seq keeps_obj keeps_raise keeps_reading keeps_modify keeps_ret)

lemma keeps_set_val_whl:
  assumes "number_pyval v"
  shows "keeps (every_object within_hard_limits) (set_val n p v)"
proof (cases v)
  case (Instance l)
  then show ?thesis by (simp add: set_val_def keeps_set_link_whl)
next
  case (Number x)
  with assms have nx: "is_number x" by (simp add: number_pyval_def)
  show ?thesis
    unfolding keeps_def Number
  proof (intro allI impI)
    fix w r w'
    assume inv: "every_object within_hard_limits w"
      and s: "set_val n p (Number x) w = Some (r, w')"
    then obtain pp where pp: "heap w p = Some pp"
      by (cases "heap w p") (simp_all add: setter_None)
    have j: "within_hard_limits pp"
      using inv pp by (rule every_objectD)
    from s pp consider
      "heap w' = (heap w)(p \<mapsto> pp\<lparr>p_link := None\<rparr>)"
      | "heap w' = (heap w)(p \<mapsto> pp\<lparr>p_link := None, p_val := x, p_default_val := x\<rparr>)"
        "\<not> x < p_min pp" "\<not> p_max pp < x"
      by (auto simp: set_val_Number_cases split: if_splits)
    then show "every_object within_hard_limits w'"
    proof cases
      case 1
      with inv show ?thesis
        using j by (auto intro: every_object_update simp: whl_link)
    next
      case 2
      with inv show ?thesis
        using whl_assigned(1) [OF j nx 2(2,3)] by (auto intro: every_object_update)
    qed
  qed
qed

lemma keeps_set_default_val_whl:
  assumes "number_pyval v"
  shows "keeps (every_object within_hard_limits) (set_default_val n p v)"
proof (cases v)
  case (Instance l)
  then show ?thesis by (simp add: set_default_val_def keeps_set_link_whl)
next
  case (Number x)
  with assms have nx: "is_number x" by (simp add: number_pyval_def)
  show ?thesis
    unfolding keeps_def Number
  proof (intro allI impI)
    fix w r w'
    assume inv: "every_object within_hard_limits w"
      and s: "set_default_val n p (Number x) w = Some (r, w')"
    then obtain pp where pp: "heap w p = Some pp"
      by (cases "heap w p") (simp_all add: setter_None)
    have j: "within_hard_limits pp"
      using inv pp by (rule every_objectD)
    from s pp consider
      "heap w' = (heap w)(p \<mapsto> pp\<lparr>p_link := None\<rparr>)"
      | "heap w' = (heap w)(p \<mapsto> pp\<lparr>p_link := None, p_default_val := x\<rparr>)"
        "\<not> x < p_min pp" "\<not> p_max pp < x"
      by (auto simp: set_default_val_Number_cases split: if_splits)
    then show "every_object within_hard_limits w'"
    proof cases
      case 1
      with inv show ?thesis
        using j by (auto intro: every_object_update simp: whl_link)
    next
      case 2
      with inv show ?thesis
        using whl_assigned(2) [OF j nx 2(2,3)] by (auto intro: every_object_update)
    qed
  qed
qed

lemma keeps_assign_val_whl:
  "number_pyval v \<Longrightarrow> keeps (every_object within_hard_limits) (assign_val n p v)"
  unfolding assign_val_def by (intro keeps_setattr keeps_set_val_whl)

lemma keeps_assign_default_val_whl:
  "number_pyval v \<Longrightarrow> keeps (every_object within_hard_limits) (assign_default_val n p v)"
  unfolding assign_default_val_def by (intro keeps_setattr keeps_set_default_val_whl)

lemma keeps_set_limit_whl:
  assumes "is_number x"
  shows "keeps (every_object within_hard_limits) (set_limit attr n p x)"
  unfolding keeps_def
proof (intro allI impI)
  fix w r w'
  assume inv: "every_object within_hard_limits w"
    and s: "set_limit attr n p x w = Some (r, w')"
  then obtain pp where pp: "heap w p = Some pp"
    by (cases "heap w p") (simp_all add: setter_None)
  have j: "within_hard_limits pp"
    using inv pp by (rule every_objectD)
  from set_limit_effect [OF s pp] obtain pp1 where
    c1: "pp1 = pp \<or> pp1 = pp\<lparr>p_link := None\<rparr>
            \<or> pp1 = pp\<lparr>p_link := None, p_val := x, p_default_val := x\<rparr>
                \<and> \<not> x < p_min pp \<and> \<not> p_max pp < x"
    and c2: "heap w' = (heap w)(p \<mapsto> pp1)
            \<or> heap w' = (heap w)(p \<mapsto> with_limit attr x pp1)
                \<and> \<not> x < p_hard_min pp \<and> \<not> p_hard_max pp < x"
    by blast
  have j1: "within_hard_limits pp1"
    using c1 j whl_assigned(1) [OF j assms] by (auto simp: whl_link)
  have hard: "p_hard_min pp1 = p_hard_min pp" "p_hard_max pp1 = p_hard_max pp"
    using c1 by auto
  from c2 show "every_object within_hard_limits w'"
  proof
    assume "heap w' = (heap w)(p \<mapsto> pp1)"
    with inv show ?thesis using j1 by (rule every_object_update)
  next
    assume a: "heap w' = (heap w)(p \<mapsto> with_limit attr x pp1)
        \<and> \<not> x < p_hard_min pp \<and> \<not> p_hard_max pp < x"
    then have "within_hard_limits (with_limit attr x pp1)"
      using j1 hard assms by (intro whl_with_limit) simp_all
    with inv a show ?thesis by (auto intro: every_object_update)
  qed
qed

lemma keeps_set_frozen_whl: "keeps (every_object within_hard_limits) (set_frozen p b)"
  by (auto simp: set_frozen_def whl_defs
        intro!: keeps_seq keeps_obj keeps_raise keeps_modify)

lemma keeps_reset_whl: "keeps (every_object within_hard_limits) (reset n p)"
  by (auto simp: reset_def whl_defs
        intro!: keeps_seq keeps_obj keeps_reading keeps_modify keeps_ret)

lemma keeps_Parameter_set_whl:
  assumes "number_set_args a"
  shows "keeps (every_object within_hard_limits) (Parameter_set n p a)"
  unfolding Parameter_set_def
  using assms
  by (intro keeps_seq keeps_when_given keeps_set_limit_whl keeps_assign_val_whl
        keeps_assign_default_val_whl keeps_set_frozen_whl)
     (simp_all add: number_set_args_def number_given_def number_pyval_given_def)

text \<open>The constructors add one object each (two for a literal operand), within its hard
  limits when they return and the arguments are numbers.\<close>

lemma whl_constructed:
  assumes "valid_args a" and "number_args a"
  shows "within_hard_limits (constructed c ps a)"
  using assms
  by (cases "i_val a"; cases "i_min a"; cases "i_max a"; cases "i_hard_min a";
      cases "i_hard_max a")
     (auto simp: whl_defs valid_args_def number_args_def constructed_simps)

lemma whl_composite_object: "within_hard_limits (composite_object c ps nm)"
  by (simp add: whl_defs composite_object_simps hugeval_def)

lemma Parameter_new_whl:
  assumes "every_object within_hard_limits w" and "number_args a"
    and "Parameter_new n a w = Some (Return x, w')"
  shows "every_object within_hard_limits w'"
proof (cases "valid_args a")
  case True
  with assms show ?thesis
    by (auto simp: Parameter_new_valid whl_constructed every_object_def split: if_splits)
next
  case False
  from Parameter_new_invalid [OF this, of n w] assms(3) show ?thesis by auto
qed

lemma wrapobj_whl:
  assumes "every_object within_hard_limits w" and "wrapobj n x w = Some (r, w')"
  shows "every_object within_hard_limits w'"
  using assms
  by (cases x) (auto simp: wrapobj_Operand wrapobj_Literal whl_composite_object
      every_object_def split: if_splits)

lemma BinaryOpParameter_new_whl:
  assumes "every_object within_hard_limits w"
    and "BinaryOpParameter_new n l r op opstr w = Some (res, w')"
  shows "every_object within_hard_limits w'"
proof -
  from assms(2) obtain r1 w1 where 1: "wrapobj n l w = Some (r1, w1)"
    by (auto simp: BinaryOpParameter_new_def seq_def split: option.splits)
  have i1: "every_object within_hard_limits w1"
    using assms(1) 1 by (rule wrapobj_whl)
  show ?thesis
  proof (cases r1)
    case (Raise e)
    with assms(2) 1 i1 show ?thesis by (simp add: BinaryOpParameter_new_def seq_def)
  next
    case (Return la)
    with assms(2) 1 obtain r2 w2 where 2: "wrapobj n r w1 = Some (r2, w2)"
      by (auto simp: BinaryOpParameter_new_def seq_def split: option.splits)
    have i2: "every_object within_hard_limits w2"
      using i1 2 by (rule wrapobj_whl)
    show ?thesis
    proof (cases r2)
      case (Raise e)
      with assms(2) 1 2 Return i2 show ?thesis by (simp add: BinaryOpParameter_new_def seq_def)
    next
      case (Return ra)
      with assms(2) 1 2 \<open>r1 = Return la\<close> i2 show ?thesis
        by (auto simp: BinaryOpParameter_new_def seq_def obj_def new_object_def ret_def
              CompositeParameter_init_blank whl_composite_object every_object_def
            split: option.splits if_splits)
    qed
  qed
qed

lemma UnaryOpParameter_new_whl:
  assumes "every_object within_hard_limits w"
    and "UnaryOpParameter_new n x op opstr w = Some (res, w')"
  shows "every_object within_hard_limits w'"
  using assms
  by (auto simp: UnaryOpParameter_new_def seq_def obj_def new_object_def ret_def
        CompositeParameter_init_blank whl_composite_object every_object_def
      split: option.splits if_splits)

lemma exec_whl:
  assumes "every_object within_hard_limits w" and "number_stmt s"
    and "exec n s w = Some (Return (), w')"
  shows "every_object within_hard_limits w'"
proof (cases s)
  case (New a)
  with assms show ?thesis by (auto dest!: discard_Return intro: Parameter_new_whl)
next
  case (New_unary op opstr x)
  with assms show ?thesis by (auto dest!: discard_Return intro: UnaryOpParameter_new_whl)
next
  case (New_binary op opstr l r)
  with assms show ?thesis by (auto dest!: discard_Return intro: BinaryOpParameter_new_whl)
qed (use assms in \<open>auto simp: freeze_def thaw_def unlink_def
      intro: keepsD [OF keeps_assign_val_whl] keepsD [OF keeps_set_limit_whl]
        keepsD [OF keeps_assign_default_val_whl] keepsD [OF keeps_set_link_whl]
        keepsD [OF keeps_Parameter_set_whl] keepsD [OF keeps_reset_whl]
        keepsD [OF keeps_set_frozen_whl]\<close>)

lemma run_whl:
  assumes "every_object within_hard_limits w" and "list_all number_stmt prog"
    and "run n prog w = Some (Return (), w')"
  shows "every_object within_hard_limits w'"
  using assms
proof (induction prog arbitrary: w)
  case Nil
  then show ?case by (simp add: ret_def)
next
  case (Cons s ss)
  from Cons.prems(3) obtain w1 where 1: "exec n s w = Some (Return (), w1)"
    and 2: "run n ss w1 = Some (Return (), w')"
    by (auto simp: seq_def split: option.splits result.splits)
  from Cons.prems(2) have s: "number_stmt s" and ss: "list_all number_stmt ss"
    by simp_all
  from Cons.prems(1) s 1 have "every_object within_hard_limits w1" by (rule exec_whl)
  then show ?case using ss 2 by (rule Cons.IH)
qed

text \<open>
  C3, as the code has it. The setters of \<open>default_min\<close> and \<open>default_max\<close> check the hard
  limits only, and the setter of \<open>default_val\<close> checks against \<open>min\<close> and \<open>max\<close>, so the
  defaults are not kept in order. What holds: let a sequence of operations
  (constructions, assignments to \<open>val\<close>, \<open>min\<close>, \<open>max\<close>, \<open>default_val\<close>, \<open>default_min\<close>,
  \<open>default_max\<close> and \<open>link\<close>, \<open>set\<close>, \<open>reset\<close>, \<open>freeze\<close>, \<open>thaw\<close>, \<open>unlink\<close>) succeed,
  with no NaN among its numeric arguments. Then for every \<open>Parameter\<close> \<open>p\<close> with link \<open>None\<close>
  that is not a composite, \<open>p.default_val\<close> reads the stored default, and each of
  \<open>default_min\<close>, \<open>default_val\<close> and \<open>default_max\<close> lies between \<open>hard_min\<close> and
  \<open>hard_max\<close>.
\<close>

theorem defaults_stay_within_hard_limits:
  assumes "list_all number_stmt prog"
    and "run n prog empty_world = Some (Return (), w)"
    and "heap w a = Some p" and "p_link p = None" and "\<not> is_composite p"
  shows "get_default_val m k (heap w) a = Some (Return (p_default_val p))
       \<and> p_hard_min p \<le> p_default_min p \<and> p_default_min p \<le> p_hard_max p
       \<and> p_hard_min p \<le> p_default_val p \<and> p_default_val p \<le> p_hard_max p
       \<and> p_hard_min p \<le> p_default_max p \<and> p_default_max p \<le> p_hard_max p"
proof -
  have "every_object within_hard_limits empty_world"
    by (simp add: every_object_def empty_world_def)
  then have "every_object within_hard_limits w"
    using assms(1,2) by (rule run_whl)
  then have "within_hard_limits p"
    using assms(3) by (rule every_objectD)
  moreover have "get_default_val m k (heap w) a = Some (Return (p_default_val p))"
    using assms(3,5,4) by (rule get_default_val_leaf_unlinked)
  ultimately show ?thesis
    by (simp add: whl_defs)
qed

text \<open>At \<open>defaults_program\<close>, which leaves \<open>default_val = 7\<close> between the hard limits
  \<open>-hugeval\<close> and \<open>hugeval\<close>.\<close>

theorem defaults_stay_within_hard_limits_witness:
  "get_default_val 0 0 (heap (world_after 0 defaults_program)) 0 = Some (Return 7)
   \<and> - hugeval \<le> 7 \<and> (7::SherpaFloat) \<le> hugeval"
proof -
  let ?w = "world_after 0 defaults_program"
  let ?p = "(constructed Parameter [] (soft_args ''m'' ''p'' 5 0 10))
              \<lparr>p_default_val := 7, p_min := 2\<rparr>"
  have a: "list_all number_stmt defaults_program"
    by (simp add: defaults_program_def number_args_def number_pyval_def args_simps hugeval_def)
  have r: "run 0 defaults_program empty_world = Some (Return (), ?w)"
    and h: "heap ?w 0 = Some ?p"
    by (simp_all add: defaults_program_def run_simps constructed_def)
  have l: "p_link ?p = None" and c: "\<not> is_composite ?p"
    and v: "p_default_val ?p = 7" "p_hard_min ?p = - hugeval" "p_hard_max ?p = hugeval"
    by (simp_all add: constructed_simps args_simps is_composite_def)
  from defaults_stay_within_hard_limits [OF a r h l c, of 0 0]
  show ?thesis
    by (simp only: v)
qed

text \<open>The claim as stated fails, in three ways. After
  \<open>p = Parameter("m", "p", 5, min=0, max=10)\<close> and \<open>p.default_min = 8\<close>, both successful,
  \<open>default_min\<close> is above \<open>default_val\<close>. After \<open>p.max = float("nan")\<close> the assignment
  \<open>p.val = 1e300\<close> succeeds and stores a default above \<open>hard_max\<close>. And for the composite
  \<open>c = p + p\<close> with \<open>p.val = hugeval\<close>, \<open>c.default_val\<close> reads \<open>2 * hugeval\<close>, above the
  \<open>hard_max\<close> of \<open>c\<close>.\<close>

theorem default_invariant_counterexample:
  "outcome (run 0 default_min_program) empty_world = Some (Return ())
   \<and> map_option p_link (heap (world_after 0 default_min_program) 0) = Some None
   \<and> map_option p_default_min (heap (world_after 0 default_min_program) 0) = Some 8
   \<and> map_option p_default_val (heap (world_after 0 default_min_program) 0) = Some 5
   \<and> map_option default_invariant (heap (world_after 0 default_min_program) 0) = Some False
   \<and> outcome (run 0 nan_limit_program) empty_world = Some (Return ())
   \<and> map_option p_link (heap (world_after 0 nan_limit_program) 0) = Some None
   \<and> get_default_val 0 0 (heap (world_after 0 nan_limit_program)) 0 = Some (Return (Num (10 ^ 300)))
   \<and> map_option p_hard_max (heap (world_after 0 nan_limit_program) 0) = Some hugeval
   \<and> hugeval < Num (10 ^ 300)
   \<and> map_option default_invariant (heap (world_after 0 nan_limit_program) 0) = Some False
   \<and> outcome (run 0 doubling_program) empty_world = Some (Return ())
   \<and> map_option p_link (heap (world_after 0 doubling_program) 1) = Some None
   \<and> get_default_val 0 0 (heap (world_after 0 doubling_program)) 1 = Some (Return (hugeval + hugeval))
   \<and> map_option p_hard_max (heap (world_after 0 doubling_program) 1) = Some hugeval
   \<and> hugeval < hugeval + hugeval"
  by (simp add: default_min_program_def nan_limit_program_def doubling_program_def run_simps
        default_invariant_def np_add_def)

subsection \<open>C4: flattening a composite\<close>

lemma get_parts_leaves:
  assumes "h s = Some sp" and "parts sp = [p, q]" and "p \<noteq> s" and "q \<noteq> s"
    and "h p = Some pp" and "h q = Some qq" and "\<not> is_composite pp" and "\<not> is_composite qq"
  shows "get_parts m h s = Some (Return [p, q])"
  using assms by (cases m) (simp_all add: get_parts_body_def)

lemma get_parts_no_parts:
  assumes "h k = Some kp" and "parts kp = []"
  shows "get_parts m h k = Some (Return [])"
  using assms by (cases m) (simp_all add: get_parts_body_def)

lemma get_val_constant:
  assumes "h k = Some kp" and "cls kp = ConstantParameter v"
  shows "get_val m h k = Some (Return v)"
  using assms by (cases m) (simp_all add: get_val_body_def eval_body_def is_composite_def)

lemma get_val_binary:
  assumes "h s = Some sp" and "cls sp = BinaryOpParameter op l r"
    and "get_val m h l = Some (Return vl)" and "get_val m h r = Some (Return vr)"
  shows "get_val (Suc m) h s = Some (Return (op vl vr))"
  using assms by (simp add: get_val_body_def eval_body_def is_composite_def)

text \<open>
  C4, as the code has it. For parameters \<open>p\<close> and \<open>q\<close> that are not composites and
  \<open>c = (p + q) / 2\<close>: the construction returns; iterating \<open>c\<close> yields, in order, the sum
  \<open>p + q\<close> (a \<open>BinaryOpParameter\<close>), then \<open>p\<close>, then \<open>q\<close>, then the \<open>ConstantParameter\<close>
  for \<open>2\<close>; the quotient \<open>c\<close> itself is not among them; and \<open>c.eval()\<close>, which is what
  \<open>c.val\<close> reads, is \<open>(p.val + q.val) / 2\<close>.
\<close>

theorem flattening_of_mean:
  assumes "heap w p = Some pp" and "heap w q = Some qq"
    and "\<not> is_composite pp" and "\<not> is_composite qq"
    and "p < next_addr w" and "q < next_addr w"
  shows "outcome (mean_expr n p q txt) w = Some (Return (Suc (Suc (next_addr w))))
       \<and> iter (Suc m) (heap (after (mean_expr n p q txt) w)) (Suc (Suc (next_addr w)))
           = Some (Return [next_addr w, p, q, Suc (next_addr w)])
       \<and> map_option cls (heap (after (mean_expr n p q txt) w) (next_addr w))
           = Some (BinaryOpParameter np_add p q)
       \<and> map_option cls (heap (after (mean_expr n p q txt) w) (Suc (next_addr w)))
           = Some (ConstantParameter 2)
       \<and> map_option cls (heap (after (mean_expr n p q txt) w) (Suc (Suc (next_addr w))))
           = Some (BinaryOpParameter np_true_divide (next_addr w) (Suc (next_addr w)))
       \<and> (\<forall>vp vq. get_val m (heap (after (mean_expr n p q txt) w)) p = Some (Return vp)
             \<and> get_val m (heap (after (mean_expr n p q txt) w)) q = Some (Return vq)
           \<longrightarrow> get_val (Suc (Suc m)) (heap (after (mean_expr n p q txt) w))
                 (Suc (Suc (next_addr w))) = Some (Return ((vp + vq) / 2)))"
proof -
  let ?s = "next_addr w"
  let ?k = "Suc (next_addr w)"
  let ?c = "Suc (Suc (next_addr w))"
  let ?sname = "''('' @ fullname pp @ '' '' @ ''+'' @ '' '' @ fullname qq @ '')''"
  let ?sp = "composite_object (BinaryOpParameter np_add p q) [p, q] ?sname"
  let ?kp = "composite_object (ConstantParameter 2) [] txt"
  let ?cp = "composite_object (BinaryOpParameter np_true_divide ?s ?k) [?s, ?k]
               (''('' @ ?sname @ '' '' @ ''/'' @ '' '' @ txt @ '')'')"
  let ?h = "(heap w)(?s \<mapsto> ?sp, ?k \<mapsto> ?kp, ?c \<mapsto> ?cp)"
  have ne: "p \<noteq> ?s" "q \<noteq> ?s" "p \<noteq> ?k" "q \<noteq> ?k" "p \<noteq> ?c" "q \<noteq> ?c"
    using assms(5,6) by simp_all
  have run: "mean_expr n p q txt w = Some (Return ?c, w\<lparr>heap := ?h, next_addr := Suc ?c\<rparr>)"
    using assms(1,2) ne
    by (simp add: mean_expr_def Parameter_add_def Parameter_truediv_def seq_def
          BinaryOpParameter_new_eq wrapobj_Operand wrapobj_Literal composite_object_simps)
  have h: "heap (after (mean_expr n p q txt) w) = ?h"
    by (simp add: run after_def)
  have hp: "?h p = Some pp" and hq: "?h q = Some qq"
    using assms(1,2) ne by simp_all
  have hs: "?h ?s = Some ?sp" and hk: "?h ?k = Some ?kp" and hc: "?h ?c = Some ?cp"
    by simp_all
  have gs: "get_parts m ?h ?s = Some (Return [p, q])"
    using hs _ ne(1,2) hp hq assms(3,4)
    by (rule get_parts_leaves) (simp add: composite_object_simps)
  have gk: "get_parts m ?h ?k = Some (Return [])"
    using hk by (rule get_parts_no_parts) (simp add: composite_object_simps)
  have it: "iter (Suc m) ?h ?c = Some (Return [?s, p, q, ?k])"
    using hs hk gs gk
    by (simp add: iter_def is_composite_def get_parts_body_def composite_object_simps)
  have ev: "get_val (Suc (Suc m)) ?h ?c = Some (Return ((vp + vq) / 2))"
    if vp: "get_val m ?h p = Some (Return vp)" and vq: "get_val m ?h q = Some (Return vq)"
    for vp vq
  proof -
    have vs: "get_val (Suc m) ?h ?s = Some (Return (np_add vp vq))"
      using hs _ vp vq by (rule get_val_binary) (simp add: composite_object_simps)
    have vk: "get_val (Suc m) ?h ?k = Some (Return 2)"
      using hk by (rule get_val_constant) (simp add: composite_object_simps)
    have "get_val (Suc (Suc m)) ?h ?c = Some (Return (np_true_divide (np_add vp vq) 2))"
      using hc _ vs vk by (rule get_val_binary) (simp add: composite_object_simps)
    then show ?thesis by (simp only: np_true_divide_def np_add_def)
  qed
  show ?thesis
    unfolding h
    using it ev by (simp add: run outcome_def composite_object_simps)
qed

text \<open>At the \<open>p\<close> and \<open>q\<close> of \<open>flatten_program\<close>, with values \<open>2\<close> and \<open>4\<close>.\<close>

theorem flattening_of_mean_witness:
  "iter (Suc 0) (heap (after (mean_expr 0 0 1 ''2'')
       (world_after 0 [New (default_args ''m'' ''p'' 2), New (default_args ''m'' ''q'' 4)]))) 4
     = Some (Return [2, 0, 1, 3])
   \<and> get_val (Suc (Suc 0)) (heap (after (mean_expr 0 0 1 ''2'')
       (world_after 0 [New (default_args ''m'' ''p'' 2), New (default_args ''m'' ''q'' 4)]))) 4
     = Some (Return 3)"
proof -
  let ?w = "world_after 0 [New (default_args ''m'' ''p'' 2), New (default_args ''m'' ''q'' 4)]"
  let ?pp = "constructed Parameter [] (default_args ''m'' ''p'' 2)"
  let ?qq = "constructed Parameter [] (default_args ''m'' ''q'' 4)"
  let ?h = "heap (after (mean_expr 0 0 1 ''2'') ?w)"
  have a: "heap ?w 0 = Some ?pp" and b: "heap ?w 1 = Some ?qq" and n: "next_addr ?w = 2"
    by (simp_all add: run_simps)
  have c: "\<not> is_composite ?pp" "\<not> is_composite ?qq"
    by (simp_all add: is_composite_def constructed_simps)
  have d: "0 < next_addr ?w" "1 < next_addr ?w"
    using n by simp_all
  note t = flattening_of_mean [OF a b c d, of 0 "''2''" 0]
  have i: "iter (Suc 0) ?h (Suc (Suc (next_addr ?w))) = Some (Return [next_addr ?w, 0, 1, Suc (next_addr ?w)])"
    using t by blast
  have hp: "?h 0 = Some ?pp" and hq: "?h 1 = Some ?qq"
    using a b n
    by (simp_all add: mean_expr_def Parameter_add_def Parameter_truediv_def seq_def after_def
          BinaryOpParameter_new_eq wrapobj_Operand wrapobj_Literal)
  have vp: "get_val 0 ?h 0 = Some (Return 2)"
    using get_val_leaf_unlinked [where h = ?h and p = 0 and k = 0, OF hp c(1)]
    by (simp add: constructed_simps args_simps)
  have vq: "get_val 0 ?h 1 = Some (Return 4)"
    using get_val_leaf_unlinked [where h = ?h and p = 1 and k = 0, OF hq c(2)]
    by (simp add: constructed_simps args_simps)
  have e: "get_val (Suc (Suc 0)) ?h (Suc (Suc (next_addr ?w))) = Some (Return ((2 + 4) / 2))"
    using t vp vq by blast
  have m: "Suc (Suc (next_addr ?w)) = 4" "Suc (next_addr ?w) = 3"
    using n by simp_all
  from i e show ?thesis
    by (simp only: m n) simp
qed

text \<open>The claim as stated fails: iterating \<open>c = (p + q) / 2\<close> yields four objects, the first
  is the sum (object \<open>2\<close>), and the quotient \<open>c\<close> (object \<open>4\<close>) is not yielded.\<close>

theorem flattening_counterexample:
  "iter 1 (heap (world_after 0 flatten_program)) 4 = Some (Return [2, 0, 1, 3])
   \<and> map_option cls (heap (world_after 0 flatten_program) 4)
       = Some (BinaryOpParameter np_true_divide 2 3)
   \<and> map_option cls (heap (world_after 0 flatten_program) 2)
       = Some (BinaryOpParameter np_add 0 1)
   \<and> iter 1 (heap (world_after 0 flatten_program)) 4 \<noteq> Some (Return [4, 2, 0, 1, 3])"
  by (simp add: flatten_program_def run_simps)

subsection \<open>C5: a cycle through more than one link\<close>

text \<open>The loop of the link setter along a chain of links: it returns, and its flag says
  whether some object of the chain is \<open>self\<close> or contains \<open>self\<close>.\<close>

lemma link_path_nonempty: "link_path h a xs \<Longrightarrow> xs \<noteq> []"
  by (induction rule: link_path.induct) simp_all

lemma link_loop_along_path:
  assumes "link_path h a xs" and "length xs \<le> Suc k"
    and "\<forall>x\<in>set xs. x \<noteq> p \<longrightarrow> (\<exists>b. contains n h x p = Some (Return b))"
  shows "link_loop n k h p a c =
     Some (Return (c \<or> (\<exists>x\<in>set xs. x = p \<or> contains n h x p = Some (Return True))))"
  using assms
proof (induction arbitrary: k c rule: link_path.induct)
  case (last h a ap)
  show ?case
  proof (cases "a = p")
    case True
    then show ?thesis
      using last.hyps by (cases k) (simp_all add: link_loop_body_def)
  next
    case False
    with last.prems obtain b where "contains n h a p = Some (Return b)"
      by auto
    with False show ?thesis
      using last.hyps by (cases k) (simp_all add: link_loop_body_def)
  qed
next
  case (step h a ap b xs)
  have "xs \<noteq> []"
    using step.hyps(3) by (rule link_path_nonempty)
  with step.prems obtain k' where k: "k = Suc k'" and len: "length xs \<le> Suc k'"
    by (cases k) auto
  have rest: "\<forall>x\<in>set xs. x \<noteq> p \<longrightarrow> (\<exists>b. contains n h x p = Some (Return b))"
    using step.prems by simp
  note ih = step.IH [OF len rest]
  show ?case
  proof (cases "a = p")
    case True
    then show ?thesis
      using step.hyps ih by (simp add: k link_loop_body_def)
  next
    case False
    with step.prems obtain hit where "contains n h a p = Some (Return hit)"
      by auto
    with False show ?thesis
      using step.hyps ih by (auto simp: k link_loop_body_def)
  qed
qed

lemma contains_self:
  assumes "h p = Some pp" and "\<not> is_composite pp"
  shows "contains n h p p = Some (Return True)"
  using assms by (simp add: contains_def iter_def)

text \<open>
  C5, as the code has it. The setter raises \<open>frozennolink\<close> for an always-frozen
  parameter before it looks for cycles. Let \<open>p\<close> be a \<open>Parameter\<close> (not a composite) that is
  not always frozen, and \<open>e\<close> an instance such that \<open>p\<close> is not in the iteration of \<open>e\<close>, the
  chain of links from \<open>e\<close> is \<open>xs\<close> and ends, and \<open>p\<close> is on it. Then \<open>p.link = e\<close> does not
  raise: it sets \<open>e.link = None\<close>, then stores \<open>e\<close> as the link of \<open>p\<close>, and changes nothing
  else.
\<close>

theorem long_cycle_is_cut:
  assumes "heap w p = Some pp" and "\<not> p_alwaysfrozen pp" and "\<not> is_composite pp"
    and "heap w e = Some ep"
    and "contains n (heap w) e p = Some (Return False)"
    and "link_path (heap w) e xs" and "p \<in> set xs" and "length xs \<le> Suc n"
    and "\<forall>x\<in>set xs. x \<noteq> p \<longrightarrow> (\<exists>b. contains n (heap w) x p = Some (Return b))"
  shows "set_link n p (Some (Instance e)) w =
     Some (Return (),
       w\<lparr>heap := (heap w)(e \<mapsto> ep\<lparr>p_link := None\<rparr>, p \<mapsto> pp\<lparr>p_link := Some e\<rparr>)\<rparr>)"
proof -
  have ne: "p \<noteq> e"
    using contains_self [where h = "heap w" and p = p and n = n, OF assms(1,3)] assms(5) by auto
  have loop: "link_loop n n (heap w) p e False = Some (Return True)"
    using link_loop_along_path [OF assms(6,8,9), of False] assms(7) by auto
  show ?thesis
    using assms(1,4) ne
    by (simp add: set_link_Instance [OF assms(1,2)] assms(5) loop cmd_defs)
qed

text \<open>At \<open>cycle_program\<close> with a \<open>C\<close> that is not always frozen, and \<open>C.link = A\<close>.\<close>

theorem long_cycle_is_cut_witness:
  "outcome (set_link 2 2 (Some (Instance 0))) (world_after 0 (cycle_program False))
     = Some (Return ())
   \<and> map_option p_link (heap (after (set_link 2 2 (Some (Instance 0)))
        (world_after 0 (cycle_program False))) 0) = Some None
   \<and> map_option p_link (heap (after (set_link 2 2 (Some (Instance 0)))
        (world_after 0 (cycle_program False))) 1) = Some (Some 2)
   \<and> map_option p_link (heap (after (set_link 2 2 (Some (Instance 0)))
        (world_after 0 (cycle_program False))) 2) = Some (Some 0)"
proof -
  let ?w = "world_after 0 (cycle_program False)"
  let ?a = "(constructed Parameter [] (default_args ''m'' ''a'' 1))\<lparr>p_link := Some 1\<rparr>"
  let ?b = "(constructed Parameter [] (default_args ''m'' ''b'' 2))\<lparr>p_link := Some 2\<rparr>"
  let ?c = "constructed Parameter [] ((default_args ''m'' ''c'' 3)\<lparr>i_alwaysfrozen := False\<rparr>)"
  have h0: "heap ?w 0 = Some ?a" and h1: "heap ?w 1 = Some ?b" and h2: "heap ?w 2 = Some ?c"
    by (simp_all add: cycle_program_def run_simps valid_args_def default_args_def)
  have l0: "p_link ?a = Some 1" and l1: "p_link ?b = Some 2" and l2: "p_link ?c = None"
    and fr: "\<not> p_alwaysfrozen ?c"
    and cm: "\<not> is_composite ?a" "\<not> is_composite ?b" "\<not> is_composite ?c"
    by (simp_all add: constructed_simps is_composite_def)
  have path: "link_path (heap ?w) 0 [0, 1, 2]"
    using h0 l0 h1 l1 h2 l2 by (auto intro!: link_path.intros)
  have c0: "contains 2 (heap ?w) 0 2 = Some (Return False)"
    and c1: "contains 2 (heap ?w) 1 2 = Some (Return False)"
    using h0 h1 cm by (simp_all add: contains_def iter_def)
  have mem: "(2::nat) \<in> set [0, 1, 2]" and len: "length [0::nat, 1, 2] \<le> Suc 2"
    by simp_all
  have all: "\<forall>x\<in>set [0, 1, 2]. x \<noteq> 2 \<longrightarrow> (\<exists>b. contains 2 (heap ?w) x 2 = Some (Return b))"
    using c0 c1 by auto
  from long_cycle_is_cut [OF h2 fr cm(3) h0 c0 path mem len all]
  have s: "set_link 2 2 (Some (Instance 0)) ?w =
      Some (Return (), ?w\<lparr>heap := (heap ?w)(0 \<mapsto> ?a\<lparr>p_link := None\<rparr>, 2 \<mapsto> ?c\<lparr>p_link := Some 0\<rparr>)\<rparr>)" .
  show ?thesis
    using h1 by (simp add: s outcome_def after_def)
qed

text \<open>The claim as stated fails for an always-frozen \<open>C\<close>: \<open>C\<close> is not in the iteration of
  \<open>A\<close>, the loop of the setter would find \<open>C\<close> on the chain of links from \<open>A\<close>, and
  \<open>C.link = A\<close> raises \<open>frozennolink\<close>; no link is changed.\<close>

theorem long_cycle_counterexample:
  "contains 2 (heap (world_after 0 (cycle_program True))) 0 2 = Some (Return False)
   \<and> link_loop 2 2 (heap (world_after 0 (cycle_program True))) 2 0 False = Some (Return True)
   \<and> outcome (set_link 2 2 (Some (Instance 0))) (world_after 0 (cycle_program True))
       = Some (Raise (ParameterErr_frozennolink ''m.c''))
   \<and> after (set_link 2 2 (Some (Instance 0))) (world_after 0 (cycle_program True))
       = world_after 0 (cycle_program True)"
  by (simp add: cycle_program_def run_simps valid_args_def default_args_def numeral_2_eq_2)

subsection \<open>C6: the bounds of the value\<close>

text \<open>
  C6. The module documents that the parameter is forced to lie within \<open>min\<close> and \<open>max\<close>,
  and \<open>reset\<close> skips the checks of the setter because "the defaults have already passed".
  They passed against the limits of their time: after
  \<open>p = Parameter("m", "p", 5, min=0, max=10); p.default_val = 8; p.max = 6\<close> the default
  \<open>8\<close> is above the maximum, \<open>p.reset()\<close> stores it in \<open>_val\<close>, and the assignment
  \<open>p.min = 1\<close> that follows succeeds and leaves it there. The parameter has no link, and
  \<open>hard_min \<le> min \<le> val \<le> max \<le> hard_max\<close> is false after a successful assignment to
  \<open>min\<close>: \<open>val = 8\<close> and \<open>max = 6\<close>.
\<close>

theorem reset_stores_default_above_maximum:
  "outcome (run 0 stale_default_program) empty_world = Some (Return ())
   \<and> map_option p_link (heap (world_after 0 stale_default_program) 0) = Some None
   \<and> map_option p_min (heap (world_after 0 stale_default_program) 0) = Some 1
   \<and> get_val 0 (heap (world_after 0 stale_default_program)) 0 = Some (Return 8)
   \<and> map_option p_val (heap (world_after 0 stale_default_program) 0) = Some 8
   \<and> map_option p_max (heap (world_after 0 stale_default_program) 0) = Some 6
   \<and> map_option bound_invariant (heap (world_after 0 stale_default_program) 0) = Some False"
  by (simp add: stale_default_program_def run_simps bound_invariant_def)

subsection \<open>C7: a limit that excludes the current value\<close>




subsection \<open>C8: reading a linked parameter out of range\<close>

text \<open>
  C8. Let \<open>b\<close> be a \<open>Parameter\<close> (not a composite) with a link \<open>l\<close>, and \<open>a\<close> another
  object. A write \<open>a.val = x\<close> of a number within \<open>[a.min, a.max]\<close> returns, whatever it does
  to the value of the link of \<open>b\<close>. Afterwards, when the link evaluates to \<open>v\<close>, the read of
  \<open>b.val\<close> raises \<open>ParameterErr("edge", b.fullname, "minimum", b.min)\<close> if \<open>v < b.min\<close>,
  else \<open>ParameterErr("edge", b.fullname, "maximum", b.max)\<close> if \<open>v > b.max\<close>, and returns
  \<open>v\<close> itself otherwise: it never returns a clamped value. The write is the call of the
  setter of \<open>a\<close>; the statement \<open>a.val = x\<close> is that call wherever \<open>a.val\<close> reads, as it
  does on every \<open>a\<close> without a link that is not a composite (lemmas
  \<open>assign_val_after_read\<close> and \<open>assign_val_unlinked\<close>).
\<close>

theorem linked_read_raises:
  assumes "heap w a = Some ap" and "p_min ap \<le> x" and "x \<le> p_max ap"
    and "heap w b = Some bp" and "a \<noteq> b"
    and "\<not> is_composite bp" and "p_link bp = Some l"
  shows "outcome (set_val n a (Number x)) w = Some (Return ())
       \<and> (\<forall>k v. get_val k (heap (after (set_val n a (Number x)) w)) l = Some (Return v) \<longrightarrow>
            get_val (Suc k) (heap (after (set_val n a (Number x)) w)) b =
              Some (if v < p_min bp then
                      Raise (ParameterErr_edge (fullname bp) ''minimum'' (p_min bp))
                    else if p_max bp < v then
                      Raise (ParameterErr_edge (fullname bp) ''maximum'' (p_max bp))
                    else Return v))"
proof -
  have s: "set_val n a (Number x) w = Some (Return (),
      w\<lparr>heap := (heap w)(a \<mapsto> ap\<lparr>p_link := None, p_val := x, p_default_val := x\<rparr>)\<rparr>)"
    using assms(1-3) by (simp add: set_val_Number_cases less_eq_not_less)
  have b: "heap (after (set_val n a (Number x)) w) b = Some bp"
    using assms(4,5) by (simp add: s after_def)
  have r: "\<And>k v. get_val k (heap (after (set_val n a (Number x)) w)) l = Some (Return v) \<Longrightarrow>
            get_val (Suc k) (heap (after (set_val n a (Number x)) w)) b =
              Some (if v < p_min bp then
                      Raise (ParameterErr_edge (fullname bp) ''minimum'' (p_min bp))
                    else if p_max bp < v then
                      Raise (ParameterErr_edge (fullname bp) ''maximum'' (p_max bp))
                    else Return v)"
    using b assms(6,7)
    by (rule get_val_leaf_linked [where h = "heap (after (set_val n a (Number x)) w)"])
  have o: "outcome (set_val n a (Number x)) w = Some (Return ())"
    by (simp add: s outcome_def)
  from o r show ?thesis by blast
qed

text \<open>At \<open>edge_program\<close>, where \<open>b.link = 10 - a\<close> and \<open>b.max = 20\<close>, and the write
  \<open>a.val = -15\<close>: the link is worth \<open>25\<close>.\<close>

theorem linked_read_raises_witness:
  "outcome (set_val 1 0 (Number (- 15))) (world_after 1 edge_program) = Some (Return ())
   \<and> get_val (Suc (Suc 0)) (heap (after (set_val 1 0 (Number (- 15))) (world_after 1 edge_program))) 1
       = Some (Raise (ParameterErr_edge ''m.b'' ''maximum'' 20))"
proof -
  let ?w = "world_after 1 edge_program"
  let ?ap = "constructed Parameter [] (default_args ''m'' ''a'' 2)"
  let ?bp = "(constructed Parameter [] (soft_args ''m'' ''b'' 1 0 20))\<lparr>p_link := Some 3\<rparr>"
  have a: "heap ?w 0 = Some ?ap" and c: "heap ?w 1 = Some ?bp"
    by (simp_all add: edge_program_def run_simps)
  have b: "p_min ?ap \<le> - 15" "- 15 \<le> p_max ?ap"
    and d: "(0::nat) \<noteq> 1"
    and e: "\<not> is_composite ?bp" "p_link ?bp = Some 3"
    and g: "fullname ?bp = ''m.b''" "p_min ?bp = 0" "p_max ?bp = 20"
    by (simp_all add: is_composite_def constructed_simps args_simps hugeval_def)
  have f: "get_val (Suc 0) (heap (after (set_val 1 0 (Number (- 15))) ?w)) 3 = Some (Return 25)"
    by (simp add: edge_program_def run_simps np_subtract_def)
  from linked_read_raises [OF a b c d e, of 1]
  have o: "outcome (set_val 1 0 (Number (- 15))) ?w = Some (Return ())"
    and r: "get_val (Suc 0) (heap (after (set_val 1 0 (Number (- 15))) ?w)) 3 = Some (Return 25) \<longrightarrow>
       get_val (Suc (Suc 0)) (heap (after (set_val 1 0 (Number (- 15))) ?w)) 1 =
         Some (if 25 < p_min ?bp then
                 Raise (ParameterErr_edge (fullname ?bp) ''minimum'' (p_min ?bp))
               else if p_max ?bp < 25 then
                 Raise (ParameterErr_edge (fullname ?bp) ''maximum'' (p_max ?bp))
               else Return 25)"
    by blast+
  from r f have "get_val (Suc (Suc 0)) (heap (after (set_val 1 0 (Number (- 15))) ?w)) 1 =
      Some (Raise (ParameterErr_edge ''m.b'' ''maximum'' 20))"
    by (simp only: g) simp
  with o show ?thesis by blast
qed

subsection \<open>C9: a link that contains the parameter itself\<close>

text \<open>
  C9, as the code has it. The setter raises \<open>frozennolink\<close> for an always-frozen
  parameter before it looks at the link. For every \<open>Parameter\<close> \<open>p\<close> that is not always
  frozen and every instance \<open>e\<close> whose iteration contains \<open>p\<close> (\<open>p in e\<close>, as for
  \<open>e = 2 * p + 3\<close>), the assignment \<open>p.link = e\<close> raises \<open>ParameterErr("linkcycle")\<close> and
  leaves the whole state as it was; so \<open>p.link\<close> is still \<open>None\<close> if it was.
\<close>

theorem self_link_rejected:
  assumes "heap w p = Some pp" and "\<not> p_alwaysfrozen pp"
    and "contains n (heap w) e p = Some (Return True)"
  shows "set_link n p (Some (Instance e)) w = Some (Raise ParameterErr_linkcycle, w)"
  using assms by (simp add: set_link_Instance)

text \<open>At \<open>p = Parameter("m", "p", 1); p.link = 2 * p + 3\<close>.\<close>

theorem self_link_rejected_witness:
  "set_link 2 0 (Some (Instance 4)) (world_after 0 (self_link_program False))
     = Some (Raise ParameterErr_linkcycle, world_after 0 (self_link_program False))
   \<and> map_option p_link (heap (world_after 0 (self_link_program False)) 0) = Some None"
proof -
  let ?w = "world_after 0 (self_link_program False)"
  let ?pp = "constructed Parameter [] ((default_args ''m'' ''p'' 1)\<lparr>i_alwaysfrozen := False\<rparr>)"
  have a: "heap ?w 0 = Some ?pp"
    by (simp add: self_link_program_def run_simps valid_args_def default_args_def)
  have b: "\<not> p_alwaysfrozen ?pp"
    by (simp add: constructed_simps)
  have c: "contains 2 (heap ?w) 4 0 = Some (Return True)"
    by (simp add: self_link_program_def run_simps valid_args_def default_args_def
          numeral_2_eq_2)
  have d: "p_link ?pp = None"
    by (simp add: constructed_simps)
  from self_link_rejected [OF a b c] a d show ?thesis by simp
qed

text \<open>The claim as stated fails for an always-frozen \<open>p\<close>: \<open>p\<close> is in the iteration of
  \<open>e = 2 * p + 3\<close> and has no link, and \<open>p.link = e\<close> raises \<open>frozennolink\<close>, not
  \<open>linkcycle\<close>.\<close>

theorem self_link_counterexample:
  "contains 2 (heap (world_after 0 (self_link_program True))) 4 0 = Some (Return True)
   \<and> map_option p_link (heap (world_after 0 (self_link_program True)) 0) = Some None
   \<and> outcome (set_link 2 0 (Some (Instance 4))) (world_after 0 (self_link_program True))
       = Some (Raise (ParameterErr_frozennolink ''m.p''))
   \<and> outcome (set_link 2 0 (Some (Instance 4))) (world_after 0 (self_link_program True))
       \<noteq> Some (Raise ParameterErr_linkcycle)"
  by (simp add: self_link_program_def run_simps valid_args_def default_args_def numeral_2_eq_2)

subsection \<open>C10: what the auto-repair changes\<close>

text \<open>A composite reads its value from its class and its parts, not from its own \<open>_val\<close>,
  \<open>_default_val\<close> or \<open>_link\<close>: a store to these changes no value that is read.\<close>

lemma get_val_own_fields:
  assumes "h p = Some pp" and "is_composite pp"
    and "h' = h(p \<mapsto> pp\<lparr>p_link := l, p_val := v, p_default_val := d\<rparr>)"
  shows "get_val k h' a = get_val k h a"
proof -
  have own: "h' p = Some (pp\<lparr>p_link := l, p_val := v, p_default_val := d\<rparr>)"
    and other: "\<And>b. b \<noteq> p \<Longrightarrow> h' b = h b"
    using assms(3) by simp_all
  have body: "get_val_body rec h' b = get_val_body rec h b" for rec b
  proof (cases "b = p")
    case True
    then show ?thesis
      using assms(1,2) own by (simp add: get_val_body_def is_composite_def eval_body_def)
  next
    case False
    then show ?thesis by (simp add: get_val_body_def other)
  qed
  show ?thesis
  proof (induction k arbitrary: a)
    case 0
    show ?case by (simp add: body)
  next
    case (Suc k)
    have "get_val k h' = get_val k h"
      by (rule ext) (rule Suc.IH)
    then show ?case by (simp add: body)
  qed
qed

text \<open>The block of the limit setter at any object whose value reads as \<open>cur\<close>. The warning
  prints the value that \<open>self.val\<close> reads after the repair: the new limit, or for a composite
  the value of its expression, which the repair does not change.\<close>

lemma auto_repair_fires:
  assumes "heap w p = Some pp" and "get_val n (heap w) p = Some (Return cur)"
    and "attr = Lim_min \<and> cur < x \<or> attr = Lim_max \<and> x < cur"
  shows "auto_repair attr n p x w =
    (if x < p_min pp then
       Some (Raise (ParameterErr_edge (fullname pp) ''minimum'' (p_min pp)),
             w\<lparr>heap := (heap w)(p \<mapsto> pp\<lparr>p_link := None\<rparr>)\<rparr>)
     else if p_max pp < x then
       Some (Raise (ParameterErr_edge (fullname pp) ''maximum'' (p_max pp)),
             w\<lparr>heap := (heap w)(p \<mapsto> pp\<lparr>p_link := None\<rparr>)\<rparr>)
     else
       Some (Return (),
             w\<lparr>heap := (heap w)(p \<mapsto> pp\<lparr>p_link := None, p_val := x, p_default_val := x\<rparr>),
               warnings := warnings w @
                 [(if attr = Lim_min then Less_than_new_minimum else Greater_than_new_maximum)
                    (fullname pp) (if is_composite pp then cur else x)]\<rparr>))"
proof (cases "is_composite pp")
  case False
  with assms show ?thesis
    by (auto simp: auto_repair_min auto_repair_max)
next
  case True
  have again: "get_val n ((heap w)(p \<mapsto> pp\<lparr>p_link := None, p_val := x, p_default_val := x\<rparr>)) p
      = Some (Return cur)"
    using get_val_own_fields [where h = "heap w" and p = p and pp = pp and l = None and v = x
        and d = x and k = n and a = p, OF assms(1) True refl] assms(2)
    by simp
  show ?thesis
    using assms True again
    by (auto simp: auto_repair_def assign_val_after_read set_val_Number_cases cmd_defs)
qed

text \<open>
  C10, as the code has it. The repair is the statement \<open>self.val = val\<close>, and the setter of
  \<open>val\<close> clears the link and then checks the new value against \<open>min\<close> and \<open>max\<close>. Let \<open>p\<close>
  be an initialized \<open>Parameter\<close> whose value reads as \<open>cur\<close>, and \<open>x\<close> a new limit that
  passes the tests of the hard limits, so that the repair fires when \<open>cur < x\<close> in the
  setter of \<open>min\<close> and when \<open>x < cur\<close> in the setter of \<open>max\<close>. If \<open>x\<close> is below \<open>p.min\<close> or
  above \<open>p.max\<close>, the setter raises the \<open>ParameterErr\<close> of that bound: the link of \<open>p\<close> is
  cleared, and \<open>_val\<close>, \<open>_default_val\<close>, the limit and everything else are as before.
  Otherwise the setter returns: \<open>_val\<close> and \<open>_default_val\<close> are \<open>x\<close>, the link of \<open>p\<close> is
  \<open>None\<close>, the limit is \<open>x\<close>, one warning is logged (with the value \<open>p.val\<close> then reads:
  \<open>x\<close>, or for a composite the value of its expression), and every other attribute of \<open>p\<close>
  and every other object is unchanged.
\<close>

theorem auto_repair_frame:
  assumes "heap w p = Some pp" and "initialized pp"
    and "get_val n (heap w) p = Some (Return cur)"
    and "\<not> x < p_hard_min pp" and "\<not> p_hard_max pp < x"
  shows "(cur < x \<longrightarrow>
            set_limit Lim_min n p x w =
              (if x < p_min pp then
                 Some (Raise (ParameterErr_edge (fullname pp) ''minimum'' (p_min pp)),
                       w\<lparr>heap := (heap w)(p \<mapsto> pp\<lparr>p_link := None\<rparr>)\<rparr>)
               else if p_max pp < x then
                 Some (Raise (ParameterErr_edge (fullname pp) ''maximum'' (p_max pp)),
                       w\<lparr>heap := (heap w)(p \<mapsto> pp\<lparr>p_link := None\<rparr>)\<rparr>)
               else
                 Some (Return (),
                       w\<lparr>heap := (heap w)(p \<mapsto>
                            pp\<lparr>p_link := None, p_val := x, p_default_val := x, p_min := x\<rparr>),
                         warnings := warnings w @
                           [Less_than_new_minimum (fullname pp)
                              (if is_composite pp then cur else x)]\<rparr>)))
       \<and> (x < cur \<longrightarrow>
            set_limit Lim_max n p x w =
              (if x < p_min pp then
                 Some (Raise (ParameterErr_edge (fullname pp) ''minimum'' (p_min pp)),
                       w\<lparr>heap := (heap w)(p \<mapsto> pp\<lparr>p_link := None\<rparr>)\<rparr>)
               else if p_max pp < x then
                 Some (Raise (ParameterErr_edge (fullname pp) ''maximum'' (p_max pp)),
                       w\<lparr>heap := (heap w)(p \<mapsto> pp\<lparr>p_link := None\<rparr>)\<rparr>)
               else
                 Some (Return (),
                       w\<lparr>heap := (heap w)(p \<mapsto>
                            pp\<lparr>p_link := None, p_val := x, p_default_val := x, p_max := x\<rparr>),
                         warnings := warnings w @
                           [Greater_than_new_maximum (fullname pp)
                              (if is_composite pp then cur else x)]\<rparr>)))"
proof (intro conjI impI)
  assume "cur < x"
  then have "Lim_min = Lim_min \<and> cur < x \<or> Lim_min = Lim_max \<and> x < cur" by simp
  from auto_repair_fires [OF assms(1,3) this] assms(1,2,4,5)
  show "set_limit Lim_min n p x w =
      (if x < p_min pp then
         Some (Raise (ParameterErr_edge (fullname pp) ''minimum'' (p_min pp)),
               w\<lparr>heap := (heap w)(p \<mapsto> pp\<lparr>p_link := None\<rparr>)\<rparr>)
       else if p_max pp < x then
         Some (Raise (ParameterErr_edge (fullname pp) ''maximum'' (p_max pp)),
               w\<lparr>heap := (heap w)(p \<mapsto> pp\<lparr>p_link := None\<rparr>)\<rparr>)
       else
         Some (Return (),
               w\<lparr>heap := (heap w)(p \<mapsto>
                    pp\<lparr>p_link := None, p_val := x, p_default_val := x, p_min := x\<rparr>),
                 warnings := warnings w @
                   [Less_than_new_minimum (fullname pp)
                      (if is_composite pp then cur else x)]\<rparr>))"
    by (simp add: set_limit_unfold setattr_def with_limit_def cmd_defs)
next
  assume "x < cur"
  then have "Lim_max = Lim_min \<and> cur < x \<or> Lim_max = Lim_max \<and> x < cur" by simp
  from auto_repair_fires [OF assms(1,3) this] assms(1,2,4,5)
  show "set_limit Lim_max n p x w =
      (if x < p_min pp then
         Some (Raise (ParameterErr_edge (fullname pp) ''minimum'' (p_min pp)),
               w\<lparr>heap := (heap w)(p \<mapsto> pp\<lparr>p_link := None\<rparr>)\<rparr>)
       else if p_max pp < x then
         Some (Raise (ParameterErr_edge (fullname pp) ''maximum'' (p_max pp)),
               w\<lparr>heap := (heap w)(p \<mapsto> pp\<lparr>p_link := None\<rparr>)\<rparr>)
       else
         Some (Return (),
               w\<lparr>heap := (heap w)(p \<mapsto>
                    pp\<lparr>p_link := None, p_val := x, p_default_val := x, p_max := x\<rparr>),
                 warnings := warnings w @
                   [Greater_than_new_maximum (fullname pp)
                      (if is_composite pp then cur else x)]\<rparr>))"
    by (simp add: set_limit_unfold setattr_def with_limit_def cmd_defs)
qed

text \<open>At the \<open>p\<close> of \<open>linked_program\<close>, which is linked to \<open>q\<close> and reads \<open>2\<close>, and the
  assignment \<open>p.min = 3\<close>.\<close>

theorem auto_repair_frame_witness:
  "after (set_limit Lim_min (Suc 0) 0 3) (world_after 0 linked_program) =
     (world_after 0 linked_program)
       \<lparr>heap := (heap (world_after 0 linked_program))(0 \<mapsto>
          (constructed Parameter [] (soft_args ''m'' ''p'' 5 0 10))
            \<lparr>p_link := None, p_val := 3, p_default_val := 3, p_min := 3\<rparr>),
        warnings := [Less_than_new_minimum ''m.p'' 3]\<rparr>"
proof -
  let ?w = "world_after 0 linked_program"
  let ?pp = "(constructed Parameter [] (soft_args ''m'' ''p'' 5 0 10))\<lparr>p_link := Some 1\<rparr>"
  have a: "heap ?w 0 = Some ?pp" and g: "warnings ?w = []"
    by (simp_all add: linked_program_def run_simps)
  have b: "\<not> is_composite ?pp" and i: "initialized ?pp" and f: "fullname ?pp = ''m.p''"
    and h: "\<not> 3 < p_hard_min ?pp" "\<not> p_hard_max ?pp < 3"
    and m: "\<not> 3 < p_min ?pp" "\<not> p_max ?pp < 3"
    by (simp_all add: is_composite_def constructed_simps args_simps hugeval_def)
  have c: "get_val (Suc 0) (heap ?w) 0 = Some (Return 2)"
    by (simp add: linked_program_def run_simps)
  from auto_repair_frame [OF a i c h] b m
  have "set_limit Lim_min (Suc 0) 0 3 ?w =
      Some (Return (),
        ?w\<lparr>heap := (heap ?w)(0 \<mapsto> ?pp\<lparr>p_link := None, p_val := 3, p_default_val := 3, p_min := 3\<rparr>),
          warnings := warnings ?w @ [Less_than_new_minimum (fullname ?pp) 3]\<rparr>)"
    by simp
  then show ?thesis
    using g f by (simp add: after_def constructed_simps args_simps)
qed

text \<open>The claim as stated fails: the \<open>p\<close> of \<open>linked_program\<close> reads \<open>2\<close> through its link
  and has \<open>_val = 5\<close> and \<open>max = 10\<close>. The assignment \<open>p.min = 11\<close> passes the tests of the
  hard limits, the repair fires, and the setter raises: the link is cleared, but \<open>_val\<close> and
  \<open>_default_val\<close> are still \<open>5\<close>, and \<open>min\<close> is still \<open>0\<close>.\<close>

theorem auto_repair_counterexample:
  "get_val 1 (heap (world_after 0 linked_program)) 0 = Some (Return 2)
   \<and> map_option p_link (heap (world_after 0 linked_program) 0) = Some (Some 1)
   \<and> outcome (set_limit Lim_min 1 0 11) (world_after 0 linked_program)
       = Some (Raise (ParameterErr_edge ''m.p'' ''maximum'' 10))
   \<and> map_option p_link (heap (after (set_limit Lim_min 1 0 11) (world_after 0 linked_program)) 0)
       = Some None
   \<and> map_option p_val (heap (after (set_limit Lim_min 1 0 11) (world_after 0 linked_program)) 0)
       = Some 5
   \<and> map_option p_default_val
        (heap (after (set_limit Lim_min 1 0 11) (world_after 0 linked_program)) 0) = Some 5
   \<and> map_option p_min (heap (after (set_limit Lim_min 1 0 11) (world_after 0 linked_program)) 0)
       = Some 0"
  by (simp add: linked_program_def run_simps)

end
